theory Spec2Isabelle
  imports Main
begin

section \<open>Fee lifecycle engine: data model\<close>

text \<open>
  The embedding follows \<^verbatim>\<open>src/models/Fee.js\<close>, \<^verbatim>\<open>src/models/FeeFrequency.js\<close>,
  \<^verbatim>\<open>src/controllers/feeController.js\<close> and the frequency handlers of
  \<^verbatim>\<open>src/controllers/notificationController.js\<close>.

  Conventions. A Mongo \<^verbatim>\<open>ObjectId\<close> is a natural number. A JavaScript \<^verbatim>\<open>Date\<close> is its
  time value, an integer number of milliseconds of local time (no daylight saving, no
  clipping of the representable range). Money amounts are JavaScript numbers, that is,
  IEEE doubles. A number whose value is a whole number is modelled as that integer, and
  the sums and differences the code computes are rounded the way double arithmetic
  rounds them (\<open>jsAdd\<close>, \<open>jsSub\<close>). Numbers with a fractional part, infinities and
  \<^verbatim>\<open>NaN\<close> are outside the model, so every result below speaks about whole amounts. A
  numeric field that holds \<^verbatim>\<open>null\<close> is \<open>None\<close>. The handlers are asynchronous functions
  that run one after the other; a handler is a function from the database and the clock
  reading to a response and the database it leaves.
\<close>

type_synonym objectId = nat
type_synonym date = int

text \<open>\<^verbatim>\<open>FEE_STATUS\<close> of \<^verbatim>\<open>src/config/constants.js\<close>.\<close>

datatype fee_status = PAID | PENDING | PARTIALLY_PAID | OVERDUE | CANCELLED

text \<open>A value that reaches \<^verbatim>\<open>calculateDueDate\<close> as its frequency: a string, an
  \<^verbatim>\<open>ObjectId\<close> or \<^verbatim>\<open>undefined\<close>.\<close>

datatype jsval = JString string | JObjectId objectId | JUndefined

text \<open>\<^verbatim>\<open>feeStructureSchema\<close>. The fields \<^verbatim>\<open>category\<close> and \<^verbatim>\<open>frequency\<close> have the schema
  type \<^verbatim>\<open>ObjectId\<close> (references to FeeCategory and FeeFrequency documents).\<close>

record FeeStructure =
  fs_id :: objectId
  fs_tenant :: objectId
  fs_name :: string
  fs_category :: "objectId option"
  fs_classes :: "objectId list"
  fs_amount :: int
  fs_frequency :: "objectId option"
  fs_academicYear :: string
  fs_dueDate :: int
  fs_isActive :: bool

text \<open>\<^verbatim>\<open>feeAssignmentSchema\<close>; the cancellation metadata, which no modelled function reads,
  is left out. \<open>discountAmount\<close> is \<^verbatim>\<open>discount.amount\<close>.\<close>

record FeeAssignment =
  fa_id :: objectId
  fa_tenant :: objectId
  fa_student :: objectId
  fa_feeStructure :: objectId
  fa_academicYear :: string
  totalAmount :: int
  discountAmount :: int
  finalAmount :: int
  dueDate :: date
  status :: fee_status
  paidAmount :: "int option"
  paidDate :: "date option"
  paymentId :: "objectId option"

text \<open>\<^verbatim>\<open>feePaymentSchema\<close>.\<close>

record FeePayment =
  fp_id :: objectId
  fp_tenant :: objectId
  fp_student :: objectId
  fp_feeAssignment :: objectId
  fp_amount :: int
  fp_paymentDate :: date
  fp_paymentMethod :: string
  fp_transactionId :: "string option"
  fp_receiptNumber :: string
  fp_collectedBy :: objectId
  fp_remarks :: "string option"
  fp_status :: string

text \<open>\<^verbatim>\<open>feeFrequencySchema\<close>.\<close>

record FeeFrequency =
  ff_id :: objectId
  ff_tenant :: objectId
  ff_name :: string
  ff_code :: string
  ff_monthsInterval :: int
  ff_isSystem :: bool
  ff_displayOrder :: int
  ff_isActive :: bool

text \<open>The fields of a student and of a class that the fee summary reads.\<close>

record Student =
  st_id :: objectId
  st_class :: "objectId option"

record SchoolClass =
  cl_id :: objectId
  cl_tenant :: objectId
  cl_name :: string
  cl_section :: string

text \<open>The collections, and the source of fresh \<^verbatim>\<open>_id\<close> values for created documents.\<close>

record database =
  feeStructures :: "FeeStructure list"
  feeAssignments :: "FeeAssignment list"
  feePayments :: "FeePayment list"
  feeFrequencies :: "FeeFrequency list"
  students :: "Student list"
  schoolClasses :: "SchoolClass list"
  nextId :: objectId

text \<open>What a handler answers when it does not succeed. The HTTP status is given by
  \<open>httpStatus\<close>; the spec's taxonomy calls the 404 answers NotFound, the answer to a
  duplicate assignment Conflict and the answer to an excessive amount Validation.
  \<^item> \<open>FeeStructureNotFound\<close>: 404, "Fee structure not found";
  \<^item> \<open>FeeAlreadyAssigned\<close>: 400, "Fee already assigned to this student";
  \<^item> \<open>FeeAssignmentNotFound\<close>: 404, "Fee assignment not found";
  \<^item> \<open>AmountExceedsRemaining r\<close>: 400, "Payment amount cannot exceed remaining amount
    of r";
  \<^item> \<open>ErrorRecordingPayment\<close>: 400, "Error recording payment", the answer of the
    handler's \<^verbatim>\<open>catch\<close> block to an exception (a validation error or a duplicate key);
  \<^item> \<open>FrequencyNotFound\<close>: 404, "Frequency not found";
  \<^item> \<open>SystemFrequenciesCannotBeDeleted\<close>: 400, "System frequencies cannot be deleted";
  \<^item> \<open>FrequencyInUse n\<close>: 400, "This frequency is being used by n fee structure(s)";
  \<^item> \<open>ErrorDeletingFrequency\<close>: 400, "Error deleting frequency", the answer of the
    \<^verbatim>\<open>catch\<close> block.
\<close>

datatype error =
    FeeStructureNotFound
  | FeeAlreadyAssigned
  | FeeAssignmentNotFound
  | AmountExceedsRemaining int
  | ErrorRecordingPayment
  | FrequencyNotFound
  | SystemFrequenciesCannotBeDeleted
  | FrequencyInUse nat
  | ErrorDeletingFrequency

fun httpStatus :: "error \<Rightarrow> nat" where
  "httpStatus FeeStructureNotFound = 404"
| "httpStatus FeeAssignmentNotFound = 404"
| "httpStatus FrequencyNotFound = 404"
| "httpStatus _ = 400"

subsection \<open>Arithmetic on whole-valued doubles\<close>

text \<open>The number of binary digits of a positive integer.\<close>

function bitLength :: "int \<Rightarrow> nat" where
  "bitLength n = (if n \<le> 0 then 0 else Suc (bitLength (n div 2)))"
  by pat_completeness auto
termination
  by (relation "measure nat") auto

text \<open>The double nearest to an integer (round to nearest, ties to the even significand),
  for magnitudes below the overflow threshold of doubles. An integer of magnitude below
  \<open>2^53 = 9007199254740992\<close> is a double; a larger one keeps its 53 leading binary
  digits.\<close>

definition roundDouble :: "int \<Rightarrow> int" where
  "roundDouble x =
     (let m = \<bar>x\<bar> in
      if m < 9007199254740992 then x
      else
        (let e = bitLength m - 53;
             q = m div 2 ^ e;
             r = m mod 2 ^ e;
             n = (if 2 * r > 2 ^ e \<or> (2 * r = 2 ^ e \<and> odd q) then q + 1 else q)
         in sgn x * (n * 2 ^ e)))"

text \<open>\<^verbatim>\<open>a + b\<close> and \<^verbatim>\<open>a - b\<close> on numbers.\<close>

definition jsAdd :: "int \<Rightarrow> int \<Rightarrow> int" where
  "jsAdd a b = roundDouble (a + b)"

definition jsSub :: "int \<Rightarrow> int \<Rightarrow> int" where
  "jsSub a b = roundDouble (a - b)"

subsection \<open>Instance methods of a fee assignment\<close>

text \<open>\<^verbatim>\<open>typeof x === 'number' ? x : 0\<close> on a field that is a number or \<^verbatim>\<open>null\<close>. The
  arithmetic and comparison operators of JavaScript convert \<^verbatim>\<open>null\<close> to 0 as well.\<close>

definition numberOrZero :: "int option \<Rightarrow> int" where
  "numberOrZero x = (case x of Some n \<Rightarrow> n | None \<Rightarrow> 0)"

text \<open>\<^verbatim>\<open>feeAssignmentSchema.methods.calculatePendingAmount\<close>.\<close>

definition calculatePendingAmount :: "FeeAssignment \<Rightarrow> int" where
  "calculatePendingAmount a = max (jsSub (finalAmount a) (numberOrZero (paidAmount a))) 0"

text \<open>\<^verbatim>\<open>feeAssignmentSchema.methods.updateStatus\<close>; \<open>today\<close> is the \<^verbatim>\<open>new Date()\<close> the
  method reads.\<close>

definition updateStatus :: "date \<Rightarrow> FeeAssignment \<Rightarrow> FeeAssignment" where
  "updateStatus today a =
     (let paid = numberOrZero (paidAmount a) in
      if paid \<ge> finalAmount a then a\<lparr>status := PAID\<rparr>
      else if paid > 0 then
        (if dueDate a < today then a\<lparr>status := OVERDUE\<rparr>
         else a\<lparr>status := PARTIALLY_PAID\<rparr>)
      else
        (if dueDate a < today then a\<lparr>status := OVERDUE\<rparr>
         else a\<lparr>status := PENDING\<rparr>))"

text \<open>\<^verbatim>\<open>feeAssignmentSchema.pre('save')\<close>. The hook runs on every \<^verbatim>\<open>save\<close> and on
  \<^verbatim>\<open>create\<close>; \<open>isNew\<close> tells the two apart, \<open>now\<close> is the \<^verbatim>\<open>new Date()\<close> it reads. Where
  none of its three conditions holds it leaves the status as it finds it.\<close>

definition preSaveAssignment :: "bool \<Rightarrow> date \<Rightarrow> FeeAssignment \<Rightarrow> FeeAssignment" where
  "preSaveAssignment isNew now a0 =
     (let a = (if isNew then a0\<lparr>finalAmount := jsSub (totalAmount a0) (discountAmount a0)\<rparr> else a0) in
      if numberOrZero (paidAmount a) \<ge> finalAmount a then a\<lparr>status := PAID\<rparr>
      else if numberOrZero (paidAmount a) > 0 then a\<lparr>status := PARTIALLY_PAID\<rparr>
      else if dueDate a < now then a\<lparr>status := OVERDUE\<rparr>
      else a)"

section \<open>The JavaScript calendar\<close>

text \<open>
  \<^verbatim>\<open>calculateDueDate\<close> builds its dates with \<^verbatim>\<open>new Date(year, month, day)\<close> and reads the
  clock with \<^verbatim>\<open>getFullYear\<close> and \<^verbatim>\<open>getMonth\<close>. These follow the ECMAScript definitions
  of Day Number, \<^verbatim>\<open>DayFromYear\<close>, \<^verbatim>\<open>YearFromTime\<close>, \<^verbatim>\<open>MonthFromTime\<close>, \<^verbatim>\<open>DateFromTime\<close>
  and \<^verbatim>\<open>MakeDay\<close>, on day numbers counted from 1 January 1970. Months are numbered from
  0. \<^verbatim>\<open>MakeDay\<close> carries a month outside 0..11 into the year and adds the day of the
  month to the first of the month without a bound, so a day a month does not have
  runs over into the next month.
\<close>

definition DaysInYear :: "int \<Rightarrow> int" where
  "DaysInYear y =
     (if y mod 4 \<noteq> 0 then 365 else if y mod 100 \<noteq> 0 then 366
      else if y mod 400 \<noteq> 0 then 365 else 366)"

definition DayFromYear :: "int \<Rightarrow> int" where
  "DayFromYear y =
     365 * (y - 1970) + (y - 1969) div 4 - (y - 1901) div 100 + (y - 1601) div 400"

text \<open>The year of a day number: the largest \<open>y\<close> with \<open>DayFromYear y \<le> d\<close>, computed
  from an estimate that is off by at most one (146097 days make 400 years).\<close>

definition YearFromDay :: "int \<Rightarrow> int" where
  "YearFromDay d =
     (let y = 1970 + (400 * d) div 146097 in
      if d < DayFromYear y then y - 1
      else if DayFromYear (y + 1) \<le> d then y + 1
      else y)"

definition InLeapYear :: "int \<Rightarrow> int" where
  "InLeapYear y = (if DaysInYear y = 366 then 1 else 0)"

definition monthStart :: "int \<Rightarrow> int \<Rightarrow> int" where
  "monthStart leap m =
     (if m = 0 then 0 else if m = 1 then 31 else if m = 2 then 59 + leap
      else if m = 3 then 90 + leap else if m = 4 then 120 + leap
      else if m = 5 then 151 + leap else if m = 6 then 181 + leap
      else if m = 7 then 212 + leap else if m = 8 then 243 + leap
      else if m = 9 then 273 + leap else if m = 10 then 304 + leap
      else 334 + leap)"

text \<open>The number of days of month \<open>m\<close> (0..11) of year \<open>y\<close>; used in statements only.\<close>

definition DaysInMonth :: "int \<Rightarrow> int \<Rightarrow> int" where
  "DaysInMonth y m =
     (if m = 1 then 28 + InLeapYear y
      else if m = 3 \<or> m = 5 \<or> m = 8 \<or> m = 10 then 30 else 31)"

definition MonthFromDayWithinYear :: "int \<Rightarrow> int \<Rightarrow> int" where
  "MonthFromDayWithinYear leap w =
     (if w < 31 then 0 else if w < 59 + leap then 1 else if w < 90 + leap then 2
      else if w < 120 + leap then 3 else if w < 151 + leap then 4
      else if w < 181 + leap then 5 else if w < 212 + leap then 6
      else if w < 243 + leap then 7 else if w < 273 + leap then 8
      else if w < 304 + leap then 9 else if w < 334 + leap then 10 else 11)"

definition MonthFromDay :: "int \<Rightarrow> int" where
  "MonthFromDay d =
     (let y = YearFromDay d in MonthFromDayWithinYear (InLeapYear y) (d - DayFromYear y))"

definition DateFromDay :: "int \<Rightarrow> int" where
  "DateFromDay d =
     (let y = YearFromDay d in
      d - DayFromYear y - monthStart (InLeapYear y) (MonthFromDay d) + 1)"

definition MakeDay :: "int \<Rightarrow> int \<Rightarrow> int \<Rightarrow> int" where
  "MakeDay year month dt =
     (let ym = year + month div 12; mn = month mod 12 in
      DayFromYear ym + monthStart (InLeapYear ym) mn + dt - 1)"

definition msPerDay :: int where
  "msPerDay = 86400000"

text \<open>\<^verbatim>\<open>new Date(year, month, day)\<close>: midnight of that day; a year from 0 to 99 stands
  for 1900 + year.\<close>

definition newDate :: "int \<Rightarrow> int \<Rightarrow> int \<Rightarrow> date" where
  "newDate year month day =
     (let yr = (if 0 \<le> year \<and> year \<le> 99 then 1900 + year else year) in
      MakeDay yr month day * msPerDay)"

definition getFullYear :: "date \<Rightarrow> int" where
  "getFullYear t = YearFromDay (t div msPerDay)"

definition getMonth :: "date \<Rightarrow> int" where
  "getMonth t = MonthFromDay (t div msPerDay)"

definition getDate :: "date \<Rightarrow> int" where
  "getDate t = DateFromDay (t div msPerDay)"

section \<open>Due dates\<close>

text \<open>\<^verbatim>\<open>calculateDueDate(frequency, dueDateDay = 10)\<close> of the fee controller. The \<^verbatim>\<open>switch\<close>
  compares \<open>frequency\<close> with five string literals by strict equality, so only a string
  can select a case. \<open>currentDate\<close> is the \<^verbatim>\<open>new Date()\<close> the function reads; an absent
  \<open>dueDateDay\<close> is \<open>None\<close>.\<close>

definition calculateDueDate :: "jsval \<Rightarrow> int option \<Rightarrow> date \<Rightarrow> date" where
  "calculateDueDate frequency dueDateDayArg currentDate =
     (let dueDateDay = (case dueDateDayArg of None \<Rightarrow> 10 | Some d \<Rightarrow> d);
          currentYear = getFullYear currentDate;
          currentMonth = getMonth currentDate
      in
      if frequency = JString ''one-time'' then
        (let dueDate = newDate currentYear currentMonth dueDateDay in
         if dueDate < currentDate then newDate currentYear (currentMonth + 1) dueDateDay
         else dueDate)
      else if frequency = JString ''monthly'' then
        (let dueDate = newDate currentYear currentMonth dueDateDay in
         if dueDate < currentDate then newDate currentYear (currentMonth + 1) dueDateDay
         else dueDate)
      else if frequency = JString ''quarterly'' then
        (let quarterStartMonth = (currentMonth div 3) * 3;
             dueDate = newDate currentYear quarterStartMonth dueDateDay in
         if dueDate < currentDate then newDate currentYear (quarterStartMonth + 3) dueDateDay
         else dueDate)
      else if frequency = JString ''half-yearly'' then
        (let halfYearMonth = (if currentMonth < 6 then 0 else 6);
             dueDate = newDate currentYear halfYearMonth dueDateDay in
         if dueDate < currentDate then newDate currentYear (halfYearMonth + 6) dueDateDay
         else dueDate)
      else if frequency = JString ''yearly'' then
        (let dueDate = newDate currentYear 3 dueDateDay in
         if dueDate < currentDate then newDate (currentYear + 1) 3 dueDateDay
         else dueDate)
      else newDate currentYear (currentMonth + 1) dueDateDay)"

text \<open>The calendar fields of a date: year, month (from 0) and day of the month.\<close>

definition dateFields :: "date \<Rightarrow> int \<times> int \<times> int" where
  "dateFields t = (getFullYear t, getMonth t, getDate t)"

text \<open>\<^verbatim>\<open>feeStructure.frequency\<close> as a JavaScript value: the schema type is \<^verbatim>\<open>ObjectId\<close>.\<close>

definition frequencyValue :: "FeeStructure \<Rightarrow> jsval" where
  "frequencyValue s = (case fs_frequency s of None \<Rightarrow> JUndefined | Some i \<Rightarrow> JObjectId i)"

section \<open>Fee assignment\<close>

text \<open>\<^verbatim>\<open>FeeAssignment.findOne({tenant, student, feeStructure, academicYear})\<close>.\<close>

definition findAssignment ::
  "objectId \<Rightarrow> objectId \<Rightarrow> objectId \<Rightarrow> string \<Rightarrow> database \<Rightarrow> FeeAssignment option" where
  "findAssignment tenantId studentId feeStructureId year db =
     List.find (\<lambda>a. fa_tenant a = tenantId \<and> fa_student a = studentId
                   \<and> fa_feeStructure a = feeStructureId \<and> fa_academicYear a = year)
       (feeAssignments db)"

text \<open>\<^verbatim>\<open>FeeAssignment.create\<close> with the fields both callers give it: a fresh \<^verbatim>\<open>_id\<close>, the
  schema default 0 for \<^verbatim>\<open>paidAmount\<close>, then the pre-save hook of a new document.\<close>

definition createFeeAssignment ::
  "date \<Rightarrow> objectId \<Rightarrow> objectId \<Rightarrow> FeeStructure \<Rightarrow> int \<Rightarrow> date \<Rightarrow> database
     \<Rightarrow> FeeAssignment \<times> database" where
  "createFeeAssignment now tenantId studentId feeStructure discount due db =
     (let a = preSaveAssignment True now
                \<lparr>fa_id = nextId db, fa_tenant = tenantId, fa_student = studentId,
                 fa_feeStructure = fs_id feeStructure,
                 fa_academicYear = fs_academicYear feeStructure,
                 totalAmount = fs_amount feeStructure, discountAmount = discount,
                 finalAmount = jsSub (fs_amount feeStructure) discount, dueDate = due,
                 status = PENDING, paidAmount = Some 0, paidDate = None, paymentId = None\<rparr>
      in (a, db\<lparr>feeAssignments := feeAssignments db @ [a], nextId := nextId db + 1\<rparr>))"

text \<open>\<^verbatim>\<open>assignFeeToStudent\<close>. \<open>tenantId\<close> is \<^verbatim>\<open>req.user.tenant._id\<close>; \<open>discount\<close> is the
  amount of the request's discount, \<open>None\<close> when the request has none.\<close>

definition assignFeeToStudent ::
  "objectId \<Rightarrow> objectId \<Rightarrow> objectId \<Rightarrow> int option \<Rightarrow> date \<Rightarrow> database
     \<Rightarrow> (error + FeeAssignment) \<times> database" where
  "assignFeeToStudent tenantId studentId feeStructureId discount now db =
     (case List.find (\<lambda>s. fs_id s = feeStructureId \<and> fs_tenant s = tenantId) (feeStructures db) of
        None \<Rightarrow> (Inl FeeStructureNotFound, db)
      | Some feeStructure \<Rightarrow>
          (case findAssignment tenantId studentId feeStructureId
                  (fs_academicYear feeStructure) db of
             Some existingAssignment \<Rightarrow> (Inl FeeAlreadyAssigned, db)
           | None \<Rightarrow>
               (let due = calculateDueDate (frequencyValue feeStructure)
                            (Some (fs_dueDate feeStructure)) now;
                    (feeAssignment, db') =
                      createFeeAssignment now tenantId studentId feeStructure
                        (numberOrZero discount) due db
                in (Inr feeAssignment, db'))))"

text \<open>The loop of \<^verbatim>\<open>autoAssignClassFees\<close> over the fee structures found, with the list of
  the assignments created so far. \<^verbatim>\<open>feeStructure.dueDate || 10\<close> replaces a due day 0
  by 10.\<close>

fun autoAssignLoop ::
  "objectId \<Rightarrow> objectId \<Rightarrow> date \<Rightarrow> FeeStructure list \<Rightarrow> FeeAssignment list \<times> database
     \<Rightarrow> FeeAssignment list \<times> database" where
  "autoAssignLoop studentId tenantId now [] (assignments, db) = (assignments, db)"
| "autoAssignLoop studentId tenantId now (feeStructure # rest) (assignments, db) =
     (case findAssignment tenantId studentId (fs_id feeStructure)
             (fs_academicYear feeStructure) db of
        Some exists \<Rightarrow> autoAssignLoop studentId tenantId now rest (assignments, db)
      | None \<Rightarrow>
          (let due = calculateDueDate (frequencyValue feeStructure)
                       (Some (if fs_dueDate feeStructure = 0 then 10
                              else fs_dueDate feeStructure)) now;
               (assignment, db') =
                 createFeeAssignment now tenantId studentId feeStructure 0 due db
           in autoAssignLoop studentId tenantId now rest (assignments @ [assignment], db')))"

text \<open>\<^verbatim>\<open>autoAssignClassFees(studentId, classId, tenantId)\<close>: the active fee structures of
  the tenant whose \<^verbatim>\<open>classes\<close> hold the class, each given to the loop.\<close>

definition autoAssignClassFees ::
  "objectId \<Rightarrow> objectId \<Rightarrow> objectId \<Rightarrow> date \<Rightarrow> database \<Rightarrow> FeeAssignment list \<times> database" where
  "autoAssignClassFees studentId classId tenantId now db =
     autoAssignLoop studentId tenantId now
       (filter (\<lambda>s. fs_tenant s = tenantId \<and> classId \<in> set (fs_classes s) \<and> fs_isActive s)
          (feeStructures db))
       ([], db)"

text \<open>A call of one of the two operations that create assignments, and a sequence of such
  calls run one after the other, each with its own clock reading.\<close>

datatype assignCall =
    AssignFee objectId objectId objectId "int option" date
  | AutoAssign objectId objectId objectId date

fun runAssignCall :: "assignCall \<Rightarrow> database \<Rightarrow> database" where
  "runAssignCall (AssignFee tenantId studentId feeStructureId discount now) db =
     snd (assignFeeToStudent tenantId studentId feeStructureId discount now db)"
| "runAssignCall (AutoAssign studentId classId tenantId now) db =
     snd (autoAssignClassFees studentId classId tenantId now db)"

fun runAssignCalls :: "assignCall list \<Rightarrow> database \<Rightarrow> database" where
  "runAssignCalls [] db = db"
| "runAssignCalls (c # cs) db = runAssignCalls cs (runAssignCall c db)"

section \<open>Payments\<close>

text \<open>\<^verbatim>\<open>Number.prototype.toString\<close> on a natural number and on an integer, and
  \<^verbatim>\<open>padStart(6, '0')\<close>.\<close>

fun natToString :: "nat \<Rightarrow> string" where
  "natToString n =
     (if n < 10 then [''0123456789'' ! n]
      else natToString (n div 10) @ [''0123456789'' ! (n mod 10)])"

definition intToString :: "int \<Rightarrow> string" where
  "intToString i = (if i < 0 then ''-'' @ natToString (nat (- i)) else natToString (nat i))"

definition padStart6 :: "string \<Rightarrow> string" where
  "padStart6 s = replicate (6 - length s) (CHR ''0'') @ s"

text \<open>The receipt number the pre-save hook of a payment builds from the year and the
  number of payments the tenant has, plus one.\<close>

definition receiptNumber :: "int \<Rightarrow> nat \<Rightarrow> string" where
  "receiptNumber year n = ''RCP'' @ intToString year @ padStart6 (natToString n)"

definition paymentMethods :: "string list" where
  "paymentMethods = [''cash'', ''cheque'', ''online'', ''bank_transfer'', ''card'']"

text \<open>The \<^verbatim>\<open>amount\<close> of a request body. The handler does not check its type: it is a
  number, or a string. \<open>AmountNumber k\<close> is the number \<open>k\<close>; \<open>AmountDigits n\<close> is the string
  of the decimal digits of \<open>n\<close> (\<^verbatim>\<open>"3000"\<close>). Other values of a body (numbers with a
  fraction, other strings, \<^verbatim>\<open>null\<close>, a missing field) are not modelled.\<close>

datatype jsAmount = AmountNumber int | AmountDigits nat

text \<open>\<^verbatim>\<open>Number(s)\<close> for a string of decimal digits with an optional minus sign, the only
  strings the model builds; \<open>None\<close> is \<^verbatim>\<open>NaN\<close>.\<close>

definition digitOf :: "char \<Rightarrow> int option" where
  "digitOf c = map_of (zip ''0123456789'' [0, 1, 2, 3, 4, 5, 6, 7, 8, 9]) c"

fun parseDigits :: "int \<Rightarrow> string \<Rightarrow> int option" where
  "parseDigits acc [] = Some acc"
| "parseDigits acc (c # cs) =
     (case digitOf c of None \<Rightarrow> None | Some v \<Rightarrow> parseDigits (10 * acc + v) cs)"

definition stringToNumber :: "string \<Rightarrow> int option" where
  "stringToNumber s =
     (case s of
        [] \<Rightarrow> Some 0
      | c # cs \<Rightarrow>
          if c = CHR ''-''
          then (if cs = [] then None
                else map_option (\<lambda>n. roundDouble (- n)) (parseDigits 0 cs))
          else map_option roundDouble (parseDigits 0 s))"

text \<open>The number an amount converts to, in the comparison \<^verbatim>\<open>amount > remainingAmount\<close> and
  in the cast of the \<^verbatim>\<open>amount\<close> field of a payment.\<close>

definition toNumber :: "jsAmount \<Rightarrow> int" where
  "toNumber amount =
     (case amount of AmountNumber k \<Rightarrow> k | AmountDigits n \<Rightarrow> roundDouble (int n))"

text \<open>\<^verbatim>\<open>feeAssignment.paidAmount += amount\<close>: the value the \<^verbatim>\<open>Number\<close> field holds after the
  assignment. With a number the operator adds (\<^verbatim>\<open>null\<close> counting as 0). With a string it
  concatenates the decimal form of the paid amount (as \<^verbatim>\<open>toString\<close> gives it below
  \<open>10^21\<close>) and the string, and the field casts the result back to a number; on \<^verbatim>\<open>null\<close> the concatenation starts with \<^verbatim>\<open>"null"\<close>, the
  cast fails (\<open>None\<close>) and \<^verbatim>\<open>save\<close> throws a validation error.\<close>

definition addAmount :: "int option \<Rightarrow> jsAmount \<Rightarrow> int option" where
  "addAmount paid amount =
     (case amount of
        AmountNumber k \<Rightarrow> Some (jsAdd (numberOrZero paid) k)
      | AmountDigits n \<Rightarrow>
          (case paid of
             None \<Rightarrow> None
           | Some p \<Rightarrow> stringToNumber (intToString p @ natToString n)))"

text \<open>The body of a payment request, with \<^verbatim>\<open>req.user.tenant._id\<close> and \<^verbatim>\<open>req.user._id\<close>.\<close>

record paymentRequest =
  rq_tenant :: objectId
  rq_user :: objectId
  rq_studentId :: objectId
  rq_feeAssignmentId :: objectId
  rq_amount :: jsAmount
  rq_paymentMethod :: "string option"
  rq_transactionId :: "string option"
  rq_remarks :: "string option"

text \<open>\<^verbatim>\<open>FeePayment.create\<close> as \<^verbatim>\<open>recordFeePayment\<close> calls it (no receipt number given).
  \<open>None\<close> is an exception: the validation of \<^verbatim>\<open>paymentMethod\<close> (required, one of five
  values) fails, or the insert violates a unique index on \<^verbatim>\<open>receiptNumber\<close> (the schema
  declares the field \<^verbatim>\<open>unique\<close>, and indexes \<^verbatim>\<open>{tenant, receiptNumber}\<close> as unique too).
  \<^verbatim>\<open>feePaymentSchema.pre('save')\<close> sets the receipt number of the new document.\<close>

definition createFeePayment :: "paymentRequest \<Rightarrow> date \<Rightarrow> database \<Rightarrow> (FeePayment \<times> database) option" where
  "createFeePayment rq now db =
     (case rq_paymentMethod rq of
        None \<Rightarrow> None
      | Some method \<Rightarrow>
          if method \<notin> set paymentMethods then None
          else
            (let count = length (filter (\<lambda>p. fp_tenant p = rq_tenant rq) (feePayments db));
                 year = getFullYear now;
                 p = \<lparr>fp_id = nextId db, fp_tenant = rq_tenant rq, fp_student = rq_studentId rq,
                      fp_feeAssignment = rq_feeAssignmentId rq,
                      fp_amount = toNumber (rq_amount rq),
                      fp_paymentDate = now, fp_paymentMethod = method,
                      fp_transactionId = rq_transactionId rq,
                      fp_receiptNumber = receiptNumber year (count + 1),
                      fp_collectedBy = rq_user rq, fp_remarks = rq_remarks rq,
                      fp_status = ''completed''\<rparr>
             in if fp_receiptNumber p \<in> set (map fp_receiptNumber (feePayments db)) then None
                else Some (p, db\<lparr>feePayments := feePayments db @ [p],
                                   nextId := nextId db + 1\<rparr>)))"

text \<open>\<^verbatim>\<open>feeAssignment.save()\<close>: the pre-save hook of an existing document, then the stored
  document of that \<^verbatim>\<open>_id\<close> is replaced.\<close>

definition saveAssignment :: "date \<Rightarrow> FeeAssignment \<Rightarrow> database \<Rightarrow> database" where
  "saveAssignment now a db =
     db\<lparr>feeAssignments :=
          map (\<lambda>x. if fa_id x = fa_id a then preSaveAssignment False now a else x)
            (feeAssignments db)\<rparr>"

text \<open>\<^verbatim>\<open>recordFeePayment\<close>. The payment is created before the assignment is saved, so when
  the save throws the payment stays stored.\<close>

definition recordFeePayment ::
  "paymentRequest \<Rightarrow> date \<Rightarrow> database \<Rightarrow> (error + FeePayment) \<times> database" where
  "recordFeePayment rq now db =
     (case List.find (\<lambda>a. fa_id a = rq_feeAssignmentId rq \<and> fa_tenant a = rq_tenant rq
                         \<and> fa_student a = rq_studentId rq) (feeAssignments db) of
        None \<Rightarrow> (Inl FeeAssignmentNotFound, db)
      | Some feeAssignment \<Rightarrow>
          (let remainingAmount =
                 jsSub (finalAmount feeAssignment) (numberOrZero (paidAmount feeAssignment))
           in if toNumber (rq_amount rq) > remainingAmount
              then (Inl (AmountExceedsRemaining remainingAmount), db)
              else
                (case createFeePayment rq now db of
                   None \<Rightarrow> (Inl ErrorRecordingPayment, db)
                 | Some (payment, db1) \<Rightarrow>
                     (case addAmount (paidAmount feeAssignment) (rq_amount rq) of
                        None \<Rightarrow> (Inl ErrorRecordingPayment, db1)
                      | Some newPaid \<Rightarrow>
                          (let a1 = feeAssignment
                                     \<lparr>paidAmount := Some newPaid,
                                      paidDate := Some now,
                                      paymentId := Some (fp_id payment)\<rparr>;
                               a2 = updateStatus now a1
                           in (Inr payment, saveAssignment now a2 db1))))))"


text \<open>Payment requests handled one after the other, each with its clock reading.\<close>

fun recordFeePayments :: "(paymentRequest \<times> date) list \<Rightarrow> database \<Rightarrow> database" where
  "recordFeePayments [] db = db"
| "recordFeePayments ((rq, now) # rest) db =
     recordFeePayments rest (snd (recordFeePayment rq now db))"

section \<open>School fee summary\<close>

text \<open>One entry of \<^verbatim>\<open>classWiseSummary\<close> (with the set of student ids that becomes
  \<^verbatim>\<open>studentCount\<close>, kept as a list without repetitions) and one of
  \<^verbatim>\<open>categoryWiseSummary\<close>.\<close>

record classBucket =
  cb_expected :: int
  cb_collected :: int
  cb_pending :: int
  cb_overdue :: int
  cb_students :: "objectId list"

record categoryBucket =
  gb_expected :: int
  gb_collected :: int
  gb_pending :: int
  gb_overdue :: int

text \<open>A key of \<^verbatim>\<open>categoryWiseSummary\<close>: the category of the fee structure, or \<^verbatim>\<open>'other'\<close>.\<close>

datatype categoryKey = CategoryId objectId | CategoryOther

text \<open>The summary \<^verbatim>\<open>getSchoolFeeSummary\<close> answers with. The recent payments and the
  collection rate (a floating-point quotient printed with two decimals) are left out.\<close>

record feeSummary =
  totalStudents :: nat
  totalAssignments :: nat
  totalExpected :: int
  totalCollected :: int
  totalPending :: int
  totalOverdue :: int
  classWiseSummary :: "string \<Rightarrow> classBucket option"
  categoryWiseSummary :: "categoryKey \<Rightarrow> categoryBucket option"

text \<open>\<^verbatim>\<open>populate('student')\<close> and \<^verbatim>\<open>populate('feeStructure')\<close>: the referenced document,
  \<open>None\<close> (\<^verbatim>\<open>null\<close>) when it does not exist.\<close>

definition populateStudent :: "database \<Rightarrow> FeeAssignment \<Rightarrow> Student option" where
  "populateStudent db a = List.find (\<lambda>s. st_id s = fa_student a) (students db)"

definition populateFeeStructure :: "database \<Rightarrow> FeeAssignment \<Rightarrow> FeeStructure option" where
  "populateFeeStructure db a = List.find (\<lambda>s. fs_id s = fa_feeStructure a) (feeStructures db)"

text \<open>\<^verbatim>\<open>classMap[classId] || 'Unknown Class'\<close>, where \<^verbatim>\<open>classMap\<close> maps the id of each class of
  the tenant to \<^verbatim>\<open>cls.displayName || `${cls.name} ${cls.section}`\<close>. \<^verbatim>\<open>displayName\<close> is a
  virtual of the class schema: name, blank, hyphen, blank, section; it is never empty, so
  the alternative is not taken.\<close>

definition displayName :: "SchoolClass \<Rightarrow> string" where
  "displayName cls = cl_name cls @ '' - '' @ cl_section cls"

definition classNameOf :: "database \<Rightarrow> objectId \<Rightarrow> objectId option \<Rightarrow> string" where
  "classNameOf db tenantId classId =
     (case classId of
        None \<Rightarrow> ''Unknown Class''
      | Some c \<Rightarrow>
          (case List.find (\<lambda>cls. cl_id cls = c)
                  (filter (\<lambda>cls. cl_tenant cls = tenantId) (schoolClasses db)) of
             None \<Rightarrow> ''Unknown Class''
           | Some cls \<Rightarrow>
               (if displayName cls \<noteq> [] then displayName cls
                else cl_name cls @ '' '' @ cl_section cls)))"

text \<open>The assignments the summary works on: those of the tenant (and of the academic
  year, when the query names one) whose student exists.\<close>

definition validAssignments :: "objectId \<Rightarrow> string option \<Rightarrow> database \<Rightarrow> FeeAssignment list" where
  "validAssignments tenantId academicYear db =
     filter (\<lambda>a. populateStudent db a \<noteq> None)
       (filter (\<lambda>a. fa_tenant a = tenantId
                    \<and> (case academicYear of None \<Rightarrow> True | Some y \<Rightarrow> fa_academicYear a = y))
          (feeAssignments db))"

text \<open>The body of the loop \<^verbatim>\<open>for (const assignment of validAssignments)\<close>: the status is
  recomputed in memory, then the totals and the two breakdowns are updated.\<close>

definition processAssignment ::
  "database \<Rightarrow> objectId \<Rightarrow> date \<Rightarrow> FeeAssignment \<Rightarrow> feeSummary \<Rightarrow> feeSummary" where
  "processAssignment db tenantId now assignment0 summary =
     (let assignment = updateStatus now assignment0;
          pending = calculatePendingAmount assignment;
          student = populateStudent db assignment;
          className = classNameOf db tenantId (case student of None \<Rightarrow> None | Some s \<Rightarrow> st_class s);
          category = (case populateFeeStructure db assignment of
                        None \<Rightarrow> CategoryOther
                      | Some s \<Rightarrow> (case fs_category s of None \<Rightarrow> CategoryOther
                                    | Some c \<Rightarrow> CategoryId c));
          cb0 = (case classWiseSummary summary className of
                   None \<Rightarrow> \<lparr>cb_expected = 0, cb_collected = 0, cb_pending = 0, cb_overdue = 0,
                             cb_students = []\<rparr>
                 | Some b \<Rightarrow> b);
          gb0 = (case categoryWiseSummary summary category of
                   None \<Rightarrow> \<lparr>gb_expected = 0, gb_collected = 0, gb_pending = 0, gb_overdue = 0\<rparr>
                 | Some b \<Rightarrow> b);
          paid = numberOrZero (paidAmount assignment);
          cb1 = cb0\<lparr>cb_expected := jsAdd (cb_expected cb0) (finalAmount assignment),
                    cb_collected := jsAdd (cb_collected cb0) paid,
                    cb_students := List.insert (fa_student assignment) (cb_students cb0)\<rparr>;
          gb1 = gb0\<lparr>gb_expected := jsAdd (gb_expected gb0) (finalAmount assignment),
                    gb_collected := jsAdd (gb_collected gb0) paid\<rparr>;
          s1 = summary\<lparr>totalExpected := jsAdd (totalExpected summary) (finalAmount assignment),
                        totalCollected := jsAdd (totalCollected summary) paid\<rparr>
      in
      if pending > 0 then
        (if status assignment = OVERDUE then
           s1\<lparr>totalOverdue := jsAdd (totalOverdue s1) pending,
              classWiseSummary := (classWiseSummary s1)
                 (className \<mapsto> cb1\<lparr>cb_overdue := jsAdd (cb_overdue cb1) pending\<rparr>),
              categoryWiseSummary := (categoryWiseSummary s1)
                 (category \<mapsto> gb1\<lparr>gb_overdue := jsAdd (gb_overdue gb1) pending\<rparr>)\<rparr>
         else
           s1\<lparr>totalPending := jsAdd (totalPending s1) pending,
              classWiseSummary := (classWiseSummary s1)
                 (className \<mapsto> cb1\<lparr>cb_pending := jsAdd (cb_pending cb1) pending\<rparr>),
              categoryWiseSummary := (categoryWiseSummary s1)
                 (category \<mapsto> gb1\<lparr>gb_pending := jsAdd (gb_pending gb1) pending\<rparr>)\<rparr>)
      else
        s1\<lparr>classWiseSummary := (classWiseSummary s1)(className \<mapsto> cb1),
           categoryWiseSummary := (categoryWiseSummary s1)(category \<mapsto> gb1)\<rparr>)"

text \<open>\<^verbatim>\<open>getSchoolFeeSummary\<close>: the query, the filter on the student and the loop. The
  handler saves nothing.\<close>

definition getSchoolFeeSummary :: "objectId \<Rightarrow> string option \<Rightarrow> date \<Rightarrow> database \<Rightarrow> feeSummary" where
  "getSchoolFeeSummary tenantId academicYear now db =
     (let valid = validAssignments tenantId academicYear db in
      fold (processAssignment db tenantId now) valid
        \<lparr>totalStudents = length (remdups (map fa_student valid)),
         totalAssignments = length valid,
         totalExpected = 0, totalCollected = 0, totalPending = 0, totalOverdue = 0,
         classWiseSummary = Map.empty, categoryWiseSummary = Map.empty\<rparr>)"

text \<open>The assignments as the loop of the summary leaves them in memory.\<close>

definition summaryAssignments :: "objectId \<Rightarrow> string option \<Rightarrow> date \<Rightarrow> database \<Rightarrow> FeeAssignment list" where
  "summaryAssignments tenantId academicYear now db =
     map (updateStatus now) (validAssignments tenantId academicYear db)"

section \<open>Deleting a fee frequency\<close>

text \<open>\<^verbatim>\<open>feeFrequencySchema.methods.canDelete\<close>. The count is the query
  \<^verbatim>\<open>FeeStructure.countDocuments({tenant: this.tenant, frequency: this.code})\<close>: the
  \<^verbatim>\<open>frequency\<close> of a fee structure is an \<^verbatim>\<open>ObjectId\<close>, the value it is compared with is the
  code of the frequency, a string. \<open>castObjectId\<close> is the conversion the database
  library applies to a string given for an \<^verbatim>\<open>ObjectId\<close> field; it is a parameter, and
  \<open>None\<close> stands for the exception it throws on a string it cannot convert. The answer
  is \<open>Inr None\<close> for \<^verbatim>\<open>{canDelete: true}\<close>, \<open>Inr (Some reason)\<close> for a refusal and \<open>Inl ()\<close>
  for the exception.\<close>

definition canDelete ::
  "(string \<Rightarrow> objectId option) \<Rightarrow> database \<Rightarrow> FeeFrequency \<Rightarrow> unit + error option" where
  "canDelete castObjectId db f =
     (if ff_isSystem f then Inr (Some SystemFrequenciesCannotBeDeleted)
      else
        (case castObjectId (ff_code f) of
           None \<Rightarrow> Inl ()
         | Some i \<Rightarrow>
             (let count = length (filter (\<lambda>s. fs_tenant s = ff_tenant f \<and> fs_frequency s = Some i)
                                    (feeStructures db))
              in if count > 0 then Inr (Some (FrequencyInUse count)) else Inr None)))"

text \<open>\<^verbatim>\<open>deleteFeeFrequency\<close>: \<open>Inr ()\<close> is the answer 200, "Frequency deleted
  successfully".\<close>

definition deleteFeeFrequency ::
  "(string \<Rightarrow> objectId option) \<Rightarrow> objectId \<Rightarrow> objectId \<Rightarrow> database
     \<Rightarrow> (error + unit) \<times> database" where
  "deleteFeeFrequency castObjectId tenantId frequencyId db =
     (case List.find (\<lambda>f. ff_id f = frequencyId \<and> ff_tenant f = tenantId) (feeFrequencies db) of
        None \<Rightarrow> (Inl FrequencyNotFound, db)
      | Some frequency \<Rightarrow>
          (case canDelete castObjectId db frequency of
             Inl _ \<Rightarrow> (Inl ErrorDeletingFrequency, db)
           | Inr (Some reason) \<Rightarrow> (Inl reason, db)
           | Inr None \<Rightarrow>
               (Inr (), db\<lparr>feeFrequencies :=
                             filter (\<lambda>f. ff_id f \<noteq> ff_id frequency) (feeFrequencies db)\<rparr>)))"

text \<open>The fee structures of the tenant that reference a frequency.\<close>

definition referencingStructures :: "database \<Rightarrow> FeeFrequency \<Rightarrow> FeeStructure list" where
  "referencingStructures db f =
     filter (\<lambda>s. fs_tenant s = ff_tenant f \<and> fs_frequency s = Some (ff_id f)) (feeStructures db)"

section \<open>The due-date table of the specification\<close>

text \<open>Section 4.1 of the specification, on calendar fields. \<open>anchorMonth\<close> gives, for a
  frequency code and the month of the reference date, the month the due date is anchored
  to and the number of months to roll by once the anchored date has passed: the
  reference month and one month for \<^verbatim>\<open>one-time\<close> and \<^verbatim>\<open>monthly\<close>; the first month of the
  calendar quarter and three months for \<^verbatim>\<open>quarterly\<close>; January or July and six months
  for \<^verbatim>\<open>half-yearly\<close>; April and a year for \<^verbatim>\<open>yearly\<close>. An unknown code has no anchor.\<close>

definition anchorMonth :: "string \<Rightarrow> int \<Rightarrow> (int \<times> int) option" where
  "anchorMonth code M =
     (if code = ''one-time'' \<or> code = ''monthly'' then Some (M, 1)
      else if code = ''quarterly'' then Some (3 * (M div 3), 3)
      else if code = ''half-yearly'' then Some (if M < 6 then 0 else 6, 6)
      else if code = ''yearly'' then Some (3, 12)
      else None)"

text \<open>Month \<open>m\<close> counted on from January of year \<open>Y\<close>, as a year and a month from 0 to 11.\<close>

definition carryMonth :: "int \<Rightarrow> int \<Rightarrow> int \<times> int" where
  "carryMonth Y m = (Y + m div 12, m mod 12)"

text \<open>The anchored date has passed: day \<open>d\<close> of month \<open>a\<close> of the reference year lies before
  the day of the reference date on the calendar.\<close>

definition datePassed :: "int \<Rightarrow> int \<Rightarrow> date \<Rightarrow> bool" where
  "datePassed a d ref \<longleftrightarrow> a < getMonth ref \<or> (a = getMonth ref \<and> d < getDate ref)"

text \<open>The due date of the table, as (year, month, day): the anchored date, rolled when
  it has passed; for an unknown code, the same day of the next month.\<close>

definition dueDateTable :: "string \<Rightarrow> int \<Rightarrow> date \<Rightarrow> int \<times> int \<times> int" where
  "dueDateTable code d ref =
     (let Y = getFullYear ref; M = getMonth ref in
      case anchorMonth code M of
        None \<Rightarrow> (fst (carryMonth Y (M + 1)), snd (carryMonth Y (M + 1)), d)
      | Some (a, k) \<Rightarrow>
          if datePassed a d ref
          then (fst (carryMonth Y (a + k)), snd (carryMonth Y (a + k)), d)
          else (Y, a, d))"

text \<open>The table read with instants: the anchored date counts as passed as soon as the
  midnight that begins it is before the reference instant, so also during the day itself;
  an anchored day the month does not have stands for the day reached by counting on into
  the next month.\<close>

definition dueDateByInstant :: "string \<Rightarrow> int \<Rightarrow> date \<Rightarrow> int \<times> int \<times> int" where
  "dueDateByInstant code d ref =
     (let Y = getFullYear ref; M = getMonth ref in
      case anchorMonth code M of
        None \<Rightarrow> (fst (carryMonth Y (M + 1)), snd (carryMonth Y (M + 1)), d)
      | Some (a, k) \<Rightarrow>
          if newDate Y a d < ref
          then (fst (carryMonth Y (a + k)), snd (carryMonth Y (a + k)), d)
          else (Y, a, d))"

text \<open>The month of the date that \<open>dueDateByInstant\<close> names has the day.\<close>

definition namedDayExists :: "string \<Rightarrow> int \<Rightarrow> date \<Rightarrow> bool" where
  "namedDayExists code d ref =
     (case dueDateByInstant code d ref of (y, m, dd) \<Rightarrow> 1 \<le> dd \<and> dd \<le> DaysInMonth y m)"

text \<open>The years handed to \<^verbatim>\<open>new Date\<close> are outside 0 to 99: the reference year and, for a
  yearly date that is rolled, the year after it.\<close>

definition plainYears :: "string \<Rightarrow> int \<Rightarrow> date \<Rightarrow> bool" where
  "plainYears code d ref =
     (let Y = getFullYear ref in
      (Y < 0 \<or> 99 < Y)
      \<and> \<not> (code = ''yearly'' \<and> newDate Y 3 d < ref \<and> Y = - 1))"

section \<open>Assignments of a tuple\<close>

text \<open>The (tenant, student, fee structure, academic year) tuple of an assignment, and the
  assignments of a tuple that are not cancelled.\<close>

definition assignmentKey :: "FeeAssignment \<Rightarrow> objectId \<times> objectId \<times> objectId \<times> string" where
  "assignmentKey a = (fa_tenant a, fa_student a, fa_feeStructure a, fa_academicYear a)"

definition activeAssignments ::
  "objectId \<times> objectId \<times> objectId \<times> string \<Rightarrow> database \<Rightarrow> FeeAssignment list" where
  "activeAssignments k db =
     filter (\<lambda>a. assignmentKey a = k \<and> status a \<noteq> CANCELLED) (feeAssignments db)"

section \<open>Receipt numbers of a tenant\<close>

definition tenantReceipts :: "objectId \<Rightarrow> database \<Rightarrow> string list" where
  "tenantReceipts t db = map fp_receiptNumber (filter (\<lambda>p. fp_tenant p = t) (feePayments db))"

section \<open>An example school\<close>

text \<open>The data of the examples below: one tenant (1) with a student (2) in a class (4);
  the system frequency \<^verbatim>\<open>yearly\<close> (5) and a custom frequency \<^verbatim>\<open>bi-monthly\<close> (6); a
  tuition fee of 5000 that references the yearly frequency (3) and a transport fee of
  1000 that references the custom one (7), both bound to the class; the clock at
  15 January 2024.\<close>

definition exampleNow :: date where
  "exampleNow = newDate 2024 0 15"

definition tuitionFee :: FeeStructure where
  "tuitionFee =
     \<lparr>fs_id = 3, fs_tenant = 1, fs_name = ''Tuition'', fs_category = Some 8, fs_classes = [4],
      fs_amount = 5000, fs_frequency = Some 5, fs_academicYear = ''2024-2025'',
      fs_dueDate = 10, fs_isActive = True\<rparr>"

definition transportFee :: FeeStructure where
  "transportFee =
     \<lparr>fs_id = 7, fs_tenant = 1, fs_name = ''Transport'', fs_category = Some 9, fs_classes = [4],
      fs_amount = 1000, fs_frequency = Some 6, fs_academicYear = ''2024-2025'',
      fs_dueDate = 10, fs_isActive = True\<rparr>"

definition yearlyFrequency :: FeeFrequency where
  "yearlyFrequency =
     \<lparr>ff_id = 5, ff_tenant = 1, ff_name = ''Yearly'', ff_code = ''yearly'',
      ff_monthsInterval = 12, ff_isSystem = True, ff_displayOrder = 5, ff_isActive = True\<rparr>"

definition biMonthlyFrequency :: FeeFrequency where
  "biMonthlyFrequency =
     \<lparr>ff_id = 6, ff_tenant = 1, ff_name = ''Bi-Monthly'', ff_code = ''bi-monthly'',
      ff_monthsInterval = 2, ff_isSystem = False, ff_displayOrder = 999, ff_isActive = True\<rparr>"

text \<open>The school before any fee is assigned.\<close>

definition newSchool :: database where
  "newSchool =
     \<lparr>feeStructures = [tuitionFee, transportFee], feeAssignments = [], feePayments = [],
      feeFrequencies = [yearlyFrequency, biMonthlyFrequency],
      students = [\<lparr>st_id = 2, st_class = Some 4\<rparr>],
      schoolClasses = [\<lparr>cl_id = 4, cl_tenant = 1, cl_name = ''Grade 1'', cl_section = ''A''\<rparr>],
      nextId = 20\<rparr>"

text \<open>The tuition fee assigned to the student, due on 10 January 2024 and unpaid; and the
  school with this one assignment.\<close>

definition tuitionAssignment :: FeeAssignment where
  "tuitionAssignment =
     \<lparr>fa_id = 10, fa_tenant = 1, fa_student = 2, fa_feeStructure = 3,
      fa_academicYear = ''2024-2025'', totalAmount = 5000, discountAmount = 0,
      finalAmount = 5000, dueDate = newDate 2024 0 10, status = PENDING,
      paidAmount = Some 0, paidDate = None, paymentId = None\<rparr>"

definition school :: database where
  "school = newSchool\<lparr>feeAssignments := [tuitionAssignment]\<rparr>"

text \<open>A request to record a payment on that assignment, its amount a number; and one
  whose amount is a string of digits.\<close>

definition payment :: "int \<Rightarrow> string option \<Rightarrow> paymentRequest" where
  "payment amount method =
     \<lparr>rq_tenant = 1, rq_user = 11, rq_studentId = 2, rq_feeAssignmentId = 10,
      rq_amount = AmountNumber amount, rq_paymentMethod = method, rq_transactionId = None,
      rq_remarks = None\<rparr>"


text \<open>The first payment of the tenant, 2000 in cash on that assignment, as it is stored.\<close>

definition firstPayment :: FeePayment where
  "firstPayment =
     \<lparr>fp_id = 20, fp_tenant = 1, fp_student = 2, fp_feeAssignment = 10, fp_amount = 2000,
      fp_paymentDate = exampleNow, fp_paymentMethod = ''cash'', fp_transactionId = None,
      fp_receiptNumber = ''RCP2024000001'', fp_collectedBy = 11, fp_remarks = None,
      fp_status = ''completed''\<rparr>"






text \<open>The tuition fee assigned with a discount of the full amount and due on 10 February
  2024, after the clock reading.\<close>

definition discountedAssignment :: FeeAssignment where
  "discountedAssignment =
     tuitionAssignment\<lparr>discountAmount := 5000, finalAmount := 0, dueDate := newDate 2024 1 10\<rparr>"

section \<open>Properties of the calendar\<close>

lemma div_succ:
  fixes x k :: int
  assumes "0 < k"
  shows "(x + 1) div k = x div k + (if k dvd (x + 1) then 1 else 0)"
proof -
  define q r where "q = x div k" and "r = x mod k"
  have x: "x = k * q + r" by (simp add: q_def r_def)
  have r: "0 \<le> r" "r < k" using assms by (simp_all add: r_def)
  show ?thesis
  proof (cases "r + 1 = k")
    case True
    then have e: "x + 1 = k * (q + 1)" using x by (simp add: algebra_simps)
    then have "(x + 1) div k = q + 1" using assms by simp
    moreover have "k dvd (x + 1)" using e by simp
    ultimately show ?thesis by (simp add: q_def)
  next
    case False
    then have lt: "r + 1 < k" using r by simp
    have e: "x + 1 = k * q + (r + 1)" using x by simp
    have d: "(x + 1) div k = q" using e r lt by (intro int_div_pos_eq[of _ _ _ "r + 1"]) simp_all
    have "(x + 1) mod k = r + 1" using e r lt by (intro int_mod_pos_eq[of _ _ q]) simp_all
    then have "\<not> k dvd (x + 1)" using r by (simp add: dvd_eq_mod_eq_0)
    with d show ?thesis by (simp add: q_def)
  qed
qed

lemma step4: "((y::int) - 1968) div 4 = (y - 1969) div 4 + (if 4 dvd y then 1 else 0)"
proof -
  have "(4::int) dvd 1968" by simp
  then have "4 dvd (y - 1968) \<longleftrightarrow> 4 dvd y" by (rule dvd_diff_left_iff)
  then show ?thesis using div_succ[of 4 "y - 1969"] by simp
qed

lemma step100: "((y::int) - 1900) div 100 = (y - 1901) div 100 + (if 100 dvd y then 1 else 0)"
proof -
  have "(100::int) dvd 1900" by simp
  then have "100 dvd (y - 1900) \<longleftrightarrow> 100 dvd y" by (rule dvd_diff_left_iff)
  then show ?thesis using div_succ[of 100 "y - 1901"] by simp
qed

lemma step400: "((y::int) - 1600) div 400 = (y - 1601) div 400 + (if 400 dvd y then 1 else 0)"
proof -
  have "(400::int) dvd 1600" by simp
  then have "400 dvd (y - 1600) \<longleftrightarrow> 400 dvd y" by (rule dvd_diff_left_iff)
  then show ?thesis using div_succ[of 400 "y - 1601"] by simp
qed

lemma dvd_100_4: "(100::int) dvd y \<Longrightarrow> 4 dvd y"
  by (rule dvd_trans[of 4 100]) simp_all

lemma dvd_400_100: "(400::int) dvd y \<Longrightarrow> 100 dvd y"
  by (rule dvd_trans[of 100 400]) simp_all

lemma DayFromYear_Suc: "DayFromYear (y + 1) = DayFromYear y + DaysInYear y"
proof -
  have "DayFromYear (y + 1)
      = 365 * (y - 1970) + 365 + (y - 1968) div 4 - (y - 1900) div 100 + (y - 1600) div 400"
    by (simp add: DayFromYear_def)
  also have "\<dots> = DayFromYear y + 365 + (if 4 dvd y then 1 else 0)
      - (if 100 dvd y then 1 else 0) + (if 400 dvd y then 1 else 0)"
    unfolding step4 step100 step400 DayFromYear_def by simp
  also have "\<dots> = DayFromYear y + DaysInYear y"
    using dvd_100_4[of y] dvd_400_100[of y]
    by (auto simp: DaysInYear_def mod_eq_0_iff_dvd)
  finally show ?thesis .
qed

lemma DaysInYear_bounds: "365 \<le> DaysInYear y" "DaysInYear y \<le> 366"
  by (auto simp: DaysInYear_def)

lemma div_bounds:
  fixes x :: int
  shows "4 * (x div 4) \<le> x" "x \<le> 4 * (x div 4) + 3"
    "100 * (x div 100) \<le> x" "x \<le> 100 * (x div 100) + 99"
    "400 * (x div 400) \<le> x" "x \<le> 400 * (x div 400) + 399"
  by presburger+

lemma DayFromYear_lower: "146097 * (y - 1970) - 506 \<le> 400 * DayFromYear y"
proof -
  define a b c where "a = (y - 1969) div 4" and "b = (y - 1901) div 100"
    and "c = (y - 1601) div 400"
  have "y - 1969 \<le> 4 * a + 3" "100 * b \<le> y - 1901" "y - 1601 \<le> 400 * c + 399"
    unfolding a_def b_def c_def by (rule div_bounds)+
  then have "100 * (y - 1969) \<le> 400 * a + 300" "400 * b \<le> 4 * (y - 1901)"
    "y - 1601 \<le> 400 * c + 399"
    by simp_all
  moreover have "400 * DayFromYear y = 146000 * (y - 1970) + 400 * a - 400 * b + 400 * c"
    by (simp add: DayFromYear_def a_def b_def c_def)
  ultimately show ?thesis by simp
qed

lemma DayFromYear_upper: "400 * DayFromYear y \<le> 146097 * (y - 1970) + 589"
proof -
  define a b c where "a = (y - 1969) div 4" and "b = (y - 1901) div 100"
    and "c = (y - 1601) div 400"
  have "4 * a \<le> y - 1969" "y - 1901 \<le> 100 * b + 99" "400 * c \<le> y - 1601"
    unfolding a_def b_def c_def by (rule div_bounds)+
  then have "400 * a \<le> 100 * (y - 1969)" "4 * (y - 1901) \<le> 400 * b + 396"
    "400 * c \<le> y - 1601"
    by simp_all
  moreover have "400 * DayFromYear y = 146000 * (y - 1970) + 400 * a - 400 * b + 400 * c"
    by (simp add: DayFromYear_def a_def b_def c_def)
  ultimately show ?thesis by simp
qed

lemma scaled_less:
  fixes x :: int
  assumes "146097 * x < c" "c \<le> 146097"
  shows "x \<le> 0"
proof (rule ccontr)
  assume "\<not> x \<le> 0"
  then have "1 \<le> x" by simp
  then have "146097 * 1 \<le> 146097 * x" by (rule mult_left_mono) simp
  with assms show False by simp
qed

lemma YearFromDay_unique:
  assumes "DayFromYear y \<le> d" "d < DayFromYear (y + 1)"
  shows "YearFromDay d = y"
proof -
  define q where "q = (400 * d) div 146097"
  define r where "r = (400 * d) mod 146097"
  have qr: "400 * d = 146097 * q + r" by (simp add: q_def r_def)
  have r0: "0 \<le> r" and r1: "r < 146097" by (simp_all add: r_def)
  have lo: "146097 * (y - 1970) - 506 \<le> 400 * d"
    using DayFromYear_lower[of y] assms(1) by simp
  have hi: "400 * d < 146097 * (y + 1 - 1970) + 589"
    using DayFromYear_upper[of "y + 1"] assms(2) by simp
  have "146097 * (y - 1970 - 1 - q) < 506"
    using lo qr r1 by (simp add: algebra_simps)
  then have b1: "y - 1970 - 1 - q \<le> 0" by (rule scaled_less) simp
  have "146097 * (q - (y - 1970) - 1) < 589"
    using hi qr r0 by (simp add: algebra_simps)
  then have b2: "q - (y - 1970) - 1 \<le> 0" by (rule scaled_less) simp
  define Y where "Y = 1970 + q"
  have yfd: "YearFromDay d =
      (if d < DayFromYear Y then Y - 1 else if DayFromYear (Y + 1) \<le> d then Y + 1 else Y)"
    by (simp add: YearFromDay_def Let_def Y_def q_def)
  from b1 b2 consider "y = Y + 1" | "y = Y" | "y = Y - 1" unfolding Y_def by linarith
  then show ?thesis
  proof cases
    case 1
    have "DayFromYear (Y + 1) \<le> d" using assms(1) unfolding 1 .
    moreover have "DayFromYear Y \<le> DayFromYear (Y + 1)"
      using DayFromYear_Suc[of Y] DaysInYear_bounds(1)[of Y] by linarith
    ultimately show ?thesis unfolding yfd 1 by simp
  next
    case 2
    show ?thesis using assms unfolding yfd 2 by simp
  next
    case 3
    have "d < DayFromYear (Y - 1 + 1)" using assms(2) unfolding 3 .
    then show ?thesis unfolding yfd 3 by simp
  qed
qed


lemma DaysInYear_leap: "DaysInYear y = 365 + InLeapYear y"
  by (simp add: InLeapYear_def DaysInYear_def)

lemma InLeapYear_cases: "InLeapYear y = 0 \<or> InLeapYear y = 1"
  by (simp add: InLeapYear_def)

lemma month_cases:
  fixes m :: int
  assumes "0 \<le> m" "m \<le> 11"
  obtains "m = 0" | "m = 1" | "m = 2" | "m = 3" | "m = 4" | "m = 5" | "m = 6"
    | "m = 7" | "m = 8" | "m = 9" | "m = 10" | "m = 11"
proof -
  have "m = 0 \<or> m = 1 \<or> m = 2 \<or> m = 3 \<or> m = 4 \<or> m = 5 \<or> m = 6
      \<or> m = 7 \<or> m = 8 \<or> m = 9 \<or> m = 10 \<or> m = 11"
    using assms by presburger
  then show ?thesis using that by blast
qed

lemma MakeDay_in_range:
  assumes "0 \<le> m" "m \<le> 11"
  shows "MakeDay y m dt = DayFromYear y + monthStart (InLeapYear y) m + dt - 1"
  using assms by (simp add: MakeDay_def Let_def)

lemma dayWithinYear_bounds:
  assumes "0 \<le> m" "m \<le> 11" "1 \<le> dt" "dt \<le> DaysInMonth y m"
  shows "0 \<le> monthStart (InLeapYear y) m + dt - 1"
    and "monthStart (InLeapYear y) m + dt - 1 < 365 + InLeapYear y"
    and "MonthFromDayWithinYear (InLeapYear y) (monthStart (InLeapYear y) m + dt - 1) = m"
  using assms(1,2)
  by (cases rule: month_cases;
      use assms(3,4) InLeapYear_cases[of y] in
        \<open>auto simp: monthStart_def DaysInMonth_def MonthFromDayWithinYear_def\<close>)+

lemma MakeDay_year:
  assumes "0 \<le> m" "m \<le> 11" "1 \<le> dt" "dt \<le> DaysInMonth y m"
  shows "YearFromDay (MakeDay y m dt) = y"
proof (rule YearFromDay_unique)
  show "DayFromYear y \<le> MakeDay y m dt"
    using dayWithinYear_bounds(1)[OF assms] by (simp add: MakeDay_in_range[OF assms(1,2)])
  show "MakeDay y m dt < DayFromYear (y + 1)"
    using dayWithinYear_bounds(2)[OF assms]
    by (simp add: MakeDay_in_range[OF assms(1,2)] DayFromYear_Suc DaysInYear_leap)
qed

lemma MakeDay_month:
  assumes "0 \<le> m" "m \<le> 11" "1 \<le> dt" "dt \<le> DaysInMonth y m"
  shows "MonthFromDay (MakeDay y m dt) = m"
proof -
  have "MakeDay y m dt - DayFromYear y = monthStart (InLeapYear y) m + dt - 1"
    by (simp add: MakeDay_in_range[OF assms(1,2)])
  then show ?thesis
    unfolding MonthFromDay_def Let_def MakeDay_year[OF assms]
    using dayWithinYear_bounds(3)[OF assms] by simp
qed

lemma MakeDay_date:
  assumes "0 \<le> m" "m \<le> 11" "1 \<le> dt" "dt \<le> DaysInMonth y m"
  shows "DateFromDay (MakeDay y m dt) = dt"
proof -
  have "DateFromDay (MakeDay y m dt)
      = MakeDay y m dt - DayFromYear y - monthStart (InLeapYear y) m + 1"
    unfolding DateFromDay_def Let_def MakeDay_year[OF assms] MakeDay_month[OF assms] ..
  then show ?thesis by (simp add: MakeDay_in_range[OF assms(1,2)])
qed

lemma MonthFromDay_range: "0 \<le> MonthFromDay d" "MonthFromDay d \<le> 11"
  by (simp_all add: MonthFromDay_def MonthFromDayWithinYear_def Let_def)

lemma getMonth_range: "0 \<le> getMonth t" "getMonth t \<le> 11"
  by (simp_all add: getMonth_def MonthFromDay_range)

lemma MakeDay_carry: "MakeDay Y m d = MakeDay (Y + m div 12) (m mod 12) d"
  by (simp add: MakeDay_def Let_def)

lemma newDate_fields:
  assumes "Y < 0 \<or> 99 < Y" and "1 \<le> d" and "d \<le> DaysInMonth (Y + m div 12) (m mod 12)"
  shows "dateFields (newDate Y m d) = (Y + m div 12, m mod 12, d)"
proof -
  have m: "0 \<le> m mod 12" "m mod 12 \<le> 11" by simp_all
  have "newDate Y m d div msPerDay = MakeDay (Y + m div 12) (m mod 12) d"
    using assms(1) MakeDay_carry[of Y m d] by (auto simp: newDate_def msPerDay_def)
  then show ?thesis
    by (simp add: dateFields_def getFullYear_def getMonth_def getDate_def
        MakeDay_year[OF m assms(2,3)] MakeDay_month[OF m assms(2,3)]
        MakeDay_date[OF m assms(2,3)])
qed

section \<open>Due dates\<close>

lemma calculateDueDate_anchored:
  assumes "anchorMonth code (getMonth ref) = Some (a, k)" and "code \<noteq> ''yearly''"
  shows "calculateDueDate (JString code) (Some d) ref =
    (if newDate (getFullYear ref) a d < ref then newDate (getFullYear ref) (a + k) d
     else newDate (getFullYear ref) a d)"
  using assms
  by (auto simp: anchorMonth_def calculateDueDate_def Let_def mult.commute split: if_splits)

lemma calculateDueDate_yearly:
  "calculateDueDate (JString ''yearly'') (Some d) ref =
    (if newDate (getFullYear ref) 3 d < ref then newDate (getFullYear ref + 1) 3 d
     else newDate (getFullYear ref) 3 d)"
  by (simp add: calculateDueDate_def Let_def)

lemma calculateDueDate_default:
  assumes "anchorMonth code (getMonth ref) = None"
  shows "calculateDueDate (JString code) (Some d) ref =
    newDate (getFullYear ref) (getMonth ref + 1) d"
  using assms by (auto simp: anchorMonth_def calculateDueDate_def Let_def split: if_splits)

text \<open>
  Claim C7, as amended. For every day of the month and reference date such that the month
  of the resulting date has that day and the years handed to \<^verbatim>\<open>new Date\<close> are outside 0 to
  99, \<open>calculateDueDate\<close> returns the date of the section 4.1 table read with instants: the
  day in the anchor month of the frequency code (the reference month for \<^verbatim>\<open>one-time\<close> and
  \<^verbatim>\<open>monthly\<close>; January, April, July or October for \<^verbatim>\<open>quarterly\<close>; January or July for
  \<^verbatim>\<open>half-yearly\<close>; April for \<^verbatim>\<open>yearly\<close>), rolled by one, three, six or twelve months when
  the midnight that begins that day is before the reference instant; and for an unknown
  code the same day of the next month.
\<close>

theorem calculateDueDate_follows_table:
  assumes "plainYears code d ref" and "namedDayExists code d ref"
  shows "dateFields (calculateDueDate (JString code) (Some d) ref) = dueDateByInstant code d ref"
proof -
  define Y M where "Y = getFullYear ref" and "M = getMonth ref"
  have plain: "Y < 0 \<or> 99 < Y"
    using assms(1) by (simp add: plainYears_def Let_def Y_def)
  show ?thesis
  proof (cases "anchorMonth code M")
    case None
    then have t: "dueDateByInstant code d ref = (Y + (M + 1) div 12, (M + 1) mod 12, d)"
      by (simp add: dueDateByInstant_def Let_def Y_def M_def carryMonth_def)
    then have "1 \<le> d" "d \<le> DaysInMonth (Y + (M + 1) div 12) ((M + 1) mod 12)"
      using assms(2) by (simp_all add: namedDayExists_def)
    from newDate_fields[OF plain this] show ?thesis
      using None by (simp add: calculateDueDate_default t Y_def M_def)
  next
    case (Some p)
    obtain a k where p: "p = (a, k)" by (cases p)
    have ak: "anchorMonth code (getMonth ref) = Some (a, k)" using Some p by (simp add: M_def)
    have a: "0 \<le> a" "a \<le> 11"
      using ak getMonth_range[of ref] by (auto simp: anchorMonth_def split: if_splits)
    then have a12: "a div 12 = 0" "a mod 12 = a" by simp_all
    show ?thesis
    proof (cases "newDate Y a d < ref")
      case False
      then have t: "dueDateByInstant code d ref = (Y, a, d)"
        using ak by (simp add: dueDateByInstant_def Let_def Y_def)
      then have "1 \<le> d" "d \<le> DaysInMonth (Y + a div 12) (a mod 12)"
        using assms(2) a12 by (simp_all add: namedDayExists_def)
      from newDate_fields[OF plain this] have f: "dateFields (newDate Y a d) = (Y, a, d)"
        using a12 by simp
      have "calculateDueDate (JString code) (Some d) ref = newDate Y a d"
      proof (cases "code = ''yearly''")
        case True
        then have "a = 3" using ak by (simp add: anchorMonth_def)
        then show ?thesis using True False by (simp add: calculateDueDate_yearly Y_def)
      next
        case ny: False
        show ?thesis using calculateDueDate_anchored[OF ak ny] False by (simp add: Y_def)
      qed
      then show ?thesis using f t by simp
    next
      case True
      then have t: "dueDateByInstant code d ref = (Y + (a + k) div 12, (a + k) mod 12, d)"
        using ak by (simp add: dueDateByInstant_def Let_def Y_def carryMonth_def)
      then have d: "1 \<le> d" "d \<le> DaysInMonth (Y + (a + k) div 12) ((a + k) mod 12)"
        using assms(2) by (simp_all add: namedDayExists_def)
      show ?thesis
      proof (cases "code = ''yearly''")
        case ny: False
        from newDate_fields[OF plain d] show ?thesis
          using calculateDueDate_anchored[OF ak ny] True t by (simp add: Y_def)
      next
        case y: True
        then have ak3: "a = 3" "k = 12" using ak by (simp_all add: anchorMonth_def)
        have "Y \<noteq> - 1"
          using assms(1) y True by (auto simp: plainYears_def Let_def Y_def ak3)
        then have plain1: "Y + 1 < 0 \<or> 99 < Y + 1" using plain by linarith
        have "1 \<le> d" "d \<le> DaysInMonth (Y + 1 + 3 div 12) (3 mod 12)"
          using d by (simp_all add: ak3)
        from newDate_fields[OF plain1 this] have "dateFields (newDate (Y + 1) 3 d) = (Y + 1, 3, d)"
          by simp
        then show ?thesis
          using y True t by (simp add: calculateDueDate_yearly Y_def ak3)
      qed
    qed
  qed
qed

theorem calculateDueDate_follows_table_witness:
  "plainYears ''monthly'' 10 (newDate 2024 0 15)
   \<and> namedDayExists ''monthly'' 10 (newDate 2024 0 15)
   \<and> dateFields (calculateDueDate (JString ''monthly'') (Some 10) (newDate 2024 0 15))
       = (2024, 1, 10)
   \<and> plainYears ''monthly'' 10 (newDate 2024 0 5)
   \<and> namedDayExists ''monthly'' 10 (newDate 2024 0 5)
   \<and> dateFields (calculateDueDate (JString ''monthly'') (Some 10) (newDate 2024 0 5))
       = (2024, 0, 10)
   \<and> plainYears ''quarterly'' 31 (newDate 2024 4 15)
   \<and> namedDayExists ''quarterly'' 31 (newDate 2024 4 15)
   \<and> dateFields (calculateDueDate (JString ''quarterly'') (Some 31) (newDate 2024 4 15))
       = (2024, 6, 31)"
proof -
  have h1: "plainYears ''monthly'' 10 (newDate 2024 0 15)" by code_simp
  have h2: "namedDayExists ''monthly'' 10 (newDate 2024 0 15)" by code_simp
  have t1: "dueDateByInstant ''monthly'' 10 (newDate 2024 0 15) = (2024, 1, 10)" by code_simp
  have h3: "plainYears ''monthly'' 10 (newDate 2024 0 5)" by code_simp
  have h4: "namedDayExists ''monthly'' 10 (newDate 2024 0 5)" by code_simp
  have t2: "dueDateByInstant ''monthly'' 10 (newDate 2024 0 5) = (2024, 0, 10)" by code_simp
  have h5: "plainYears ''quarterly'' 31 (newDate 2024 4 15)" by code_simp
  have h6: "namedDayExists ''quarterly'' 31 (newDate 2024 4 15)" by code_simp
  have t3: "dueDateByInstant ''quarterly'' 31 (newDate 2024 4 15) = (2024, 6, 31)" by code_simp
  show ?thesis
    using calculateDueDate_follows_table[OF h1 h2] calculateDueDate_follows_table[OF h3 h4]
      calculateDueDate_follows_table[OF h5 h6] h1 h2 h3 h4 h5 h6
    unfolding t1 t2 t3 by (intro conjI)
qed

text \<open>The claim as the specification states it, for every day of the month and reference
  date, fails in three ways. A day the month does not have runs over: with code
  \<^verbatim>\<open>monthly\<close>, day 31 and the reference date 5 February 2024 the table names 31 February,
  the function returns 2 March. The due day itself counts as passed once its midnight is
  over: with day 10 and the reference instant noon of 10 January 2024 the date of the
  table, 10 January, has not passed, the function returns 10 February. And a year from 0
  to 99 is read as 1900 plus the year: with day 10 and the reference date 5 January of the
  year 50 the table names 10 January 50, the function returns 10 January 1950.\<close>

theorem calculateDueDate_counterexample:
  "dueDateTable ''monthly'' 31 (newDate 2024 1 5) = (2024, 1, 31)
   \<and> dateFields (calculateDueDate (JString ''monthly'') (Some 31) (newDate 2024 1 5))
       = (2024, 2, 2)
   \<and> dateFields (newDate 2024 0 10 + 43200000) = (2024, 0, 10)
   \<and> dueDateTable ''monthly'' 10 (newDate 2024 0 10 + 43200000) = (2024, 0, 10)
   \<and> dateFields (calculateDueDate (JString ''monthly'') (Some 10) (newDate 2024 0 10 + 43200000))
       = (2024, 1, 10)
   \<and> dateFields (MakeDay 50 0 5 * msPerDay) = (50, 0, 5)
   \<and> dueDateTable ''monthly'' 10 (MakeDay 50 0 5 * msPerDay) = (50, 0, 10)
   \<and> dateFields (calculateDueDate (JString ''monthly'') (Some 10) (MakeDay 50 0 5 * msPerDay))
       = (1950, 0, 10)"
  by code_simp

text \<open>
  Claim C6. The tuition fee references the system frequency \<^verbatim>\<open>yearly\<close>. Assigned on
  15 January 2024 with due day 10, the claim places the due date in April; the assignment
  is created with the due date 10 February 2024, the next-month fallback, because
  \<open>calculateDueDate\<close> is given the \<^verbatim>\<open>ObjectId\<close> of the frequency, which equals none of the
  code strings.
\<close>

theorem assignFee_yearly_due_date:
  "fs_frequency tuitionFee = Some (ff_id yearlyFrequency)
   \<and> ff_code yearlyFrequency = ''yearly''
   \<and> map_sum id (\<lambda>a. dateFields (dueDate a))
        (fst (assignFeeToStudent 1 2 3 None exampleNow newSchool)) = Inr (2024, 1, 10)
   \<and> dateFields (calculateDueDate (JString ''yearly'') (Some 10) exampleNow) = (2024, 3, 10)"
  by code_simp

section \<open>Status derivation\<close>

text \<open>
  Claim C3, as amended. For an assignment whose status is not cancelled, the status held
  in memory after \<open>updateStatus\<close> follows the table of section 4.2 on the paid amount (a
  non-numeric one counting as 0), the final amount, the due date and today, the rows for
  a paid amount of 0 applying only below the final amount: paid if the paid amount is at
  least the final amount; overdue if it is above 0 and below the final amount and the due
  date is before today; partially paid if it is above 0 and below the final amount and
  the due date is not before today; overdue if it is 0 and below the final amount and
  the due date is before today; pending if it is 0 and below the final amount and the
  due date is not before today.
\<close>

theorem updateStatus_matches_table:
  assumes "status a \<noteq> CANCELLED"
  shows "(numberOrZero (paidAmount a) \<ge> finalAmount a
            \<longrightarrow> status (updateStatus today a) = PAID)
       \<and> (0 < numberOrZero (paidAmount a) \<and> numberOrZero (paidAmount a) < finalAmount a
            \<and> dueDate a < today
            \<longrightarrow> status (updateStatus today a) = OVERDUE)
       \<and> (0 < numberOrZero (paidAmount a) \<and> numberOrZero (paidAmount a) < finalAmount a
            \<and> dueDate a \<ge> today
            \<longrightarrow> status (updateStatus today a) = PARTIALLY_PAID)
       \<and> (numberOrZero (paidAmount a) = 0 \<and> numberOrZero (paidAmount a) < finalAmount a
            \<and> dueDate a < today
            \<longrightarrow> status (updateStatus today a) = OVERDUE)
       \<and> (numberOrZero (paidAmount a) = 0 \<and> numberOrZero (paidAmount a) < finalAmount a
            \<and> dueDate a \<ge> today
            \<longrightarrow> status (updateStatus today a) = PENDING)"
  by (simp add: updateStatus_def Let_def)

theorem updateStatus_matches_table_witness:
  "status (tuitionAssignment\<lparr>paidAmount := None\<rparr>) \<noteq> CANCELLED
   \<and> numberOrZero (paidAmount (tuitionAssignment\<lparr>paidAmount := None\<rparr>)) = 0
   \<and> 0 < finalAmount (tuitionAssignment\<lparr>paidAmount := None\<rparr>)
   \<and> dueDate (tuitionAssignment\<lparr>paidAmount := None\<rparr>) < exampleNow
   \<and> status (updateStatus exampleNow (tuitionAssignment\<lparr>paidAmount := None\<rparr>)) = OVERDUE
   \<and> status (tuitionAssignment\<lparr>paidAmount := Some 2000\<rparr>) \<noteq> CANCELLED
   \<and> numberOrZero (paidAmount (tuitionAssignment\<lparr>paidAmount := Some 2000\<rparr>)) = 2000
   \<and> finalAmount (tuitionAssignment\<lparr>paidAmount := Some 2000\<rparr>) = 5000
   \<and> dueDate (tuitionAssignment\<lparr>paidAmount := Some 2000\<rparr>) \<ge> newDate 2024 0 5
   \<and> status (updateStatus (newDate 2024 0 5) (tuitionAssignment\<lparr>paidAmount := Some 2000\<rparr>))
       = PARTIALLY_PAID"
proof -
  let ?a = "tuitionAssignment\<lparr>paidAmount := None\<rparr>"
  let ?b = "tuitionAssignment\<lparr>paidAmount := Some 2000\<rparr>"
  have a: "status ?a \<noteq> CANCELLED" "numberOrZero (paidAmount ?a) = 0"
    "0 < finalAmount ?a"
    by (simp_all add: tuitionAssignment_def numberOrZero_def)
  have ad: "dueDate ?a < exampleNow" by code_simp
  have b: "status ?b \<noteq> CANCELLED" "numberOrZero (paidAmount ?b) = 2000"
    "finalAmount ?b = 5000"
    by (simp_all add: tuitionAssignment_def numberOrZero_def)
  have bd: "dueDate ?b \<ge> newDate 2024 0 5" by code_simp
  have 1: "status (updateStatus exampleNow ?a) = OVERDUE"
    using updateStatus_matches_table[OF a(1), of exampleNow] a(2,3) ad by simp
  have 2: "status (updateStatus (newDate 2024 0 5) ?b) = PARTIALLY_PAID"
    using updateStatus_matches_table[OF b(1), of "newDate 2024 0 5"] b(2,3) bd by simp
  show ?thesis using a ad b bd 1 2 by (intro conjI)
qed

text \<open>The claim as the specification states it gives the rows for a paid amount of 0
  without the bound by the final amount. They fail for a fee discounted to 0: nothing is
  paid and the due date, 10 February 2024, is not before today, 15 January, so the claim's
  last row says pending, and \<open>updateStatus\<close> sets the status paid.\<close>

theorem updateStatus_zero_fee_counterexample:
  "status discountedAssignment \<noteq> CANCELLED
   \<and> numberOrZero (paidAmount discountedAssignment) = 0
   \<and> finalAmount discountedAssignment = 0
   \<and> dueDate discountedAssignment \<ge> exampleNow
   \<and> status (updateStatus exampleNow discountedAssignment) = PAID"
  by code_simp

section \<open>Recording a payment\<close>


lemma createFeePayment_result:
  assumes "createFeePayment rq now db = Some (p, db1)"
  shows "db1 = db\<lparr>feePayments := feePayments db @ [p], nextId := nextId db + 1\<rparr>"
    and "fp_tenant p = rq_tenant rq"
    and "fp_receiptNumber p = receiptNumber (getFullYear now)
           (length (filter (\<lambda>p. fp_tenant p = rq_tenant rq) (feePayments db)) + 1)"
    and "fp_receiptNumber p \<notin> set (map fp_receiptNumber (feePayments db))"
  using assms
  by (auto simp: createFeePayment_def Let_def split: option.splits if_splits)









text \<open>
  Claim C2. In the lifecycle scenario the assignment of 5000 was due on 10 January 2024
  and the payments are recorded on 15 January, after the due date. After the payment of
  2000 \<open>updateStatus\<close> gives the status overdue, as the claim says, but the pre-save hook
  that runs in \<^verbatim>\<open>save\<close> replaces it: the stored status is \<open>PARTIALLY_PAID\<close>. After the payment
  of 3000 the stored assignment has 5000 paid, the status paid and nothing pending.
\<close>

theorem lifecycle_after_due_date:
  "dueDate tuitionAssignment < exampleNow
   \<and> status (updateStatus exampleNow (tuitionAssignment\<lparr>paidAmount := Some 2000\<rparr>)) = OVERDUE
   \<and> map (\<lambda>a. (paidAmount a, status a))
        (feeAssignments (snd (recordFeePayment (payment 2000 (Some ''cash'')) exampleNow school)))
       = [(Some 2000, PARTIALLY_PAID)]
   \<and> map (\<lambda>a. (paidAmount a, status a, calculatePendingAmount a))
        (feeAssignments (snd (recordFeePayment (payment 3000 (Some ''cash'')) exampleNow
           (snd (recordFeePayment (payment 2000 (Some ''cash'')) exampleNow school)))))
       = [(Some 5000, PAID, 0)]"
  by code_simp

section \<open>Receipt numbers\<close>

lemma recordFeePayment_payments:
  "feePayments (snd (recordFeePayment rq now db)) = feePayments db
   \<or> (\<exists>p. feePayments (snd (recordFeePayment rq now db)) = feePayments db @ [p]
          \<and> fp_tenant p = rq_tenant rq
          \<and> fp_receiptNumber p \<notin> set (map fp_receiptNumber (feePayments db)))"
proof (cases "List.find (\<lambda>a. fa_id a = rq_feeAssignmentId rq \<and> fa_tenant a = rq_tenant rq
                         \<and> fa_student a = rq_studentId rq) (feeAssignments db)")
  case None
  then show ?thesis by (simp add: recordFeePayment_def)
next
  case (Some a)
  show ?thesis
  proof (cases "toNumber (rq_amount rq) > jsSub (finalAmount a) (numberOrZero (paidAmount a))")
    case True
    then show ?thesis using Some by (simp add: recordFeePayment_def Let_def)
  next
    case False
    show ?thesis
    proof (cases "createFeePayment rq now db")
      case None
      then show ?thesis using Some False by (simp add: recordFeePayment_def Let_def)
    next
      case (Some pd)
      obtain p db1 where pd: "pd = (p, db1)" by (cases pd)
      note c = createFeePayment_result[OF Some[unfolded pd]]
      have "feePayments (snd (recordFeePayment rq now db)) = feePayments db @ [p]"
        using \<open>List.find _ _ = Some a\<close> False Some pd c(1)
        by (simp add: recordFeePayment_def Let_def saveAssignment_def split: option.splits)
      then show ?thesis using c(2,4) by blast
    qed
  qed
qed

lemma recordFeePayment_Inr:
  assumes "recordFeePayment rq now db = (Inr p, db')"
  shows "feePayments db' = feePayments db @ [p]"
    and "fp_tenant p = rq_tenant rq"
    and "fp_receiptNumber p = receiptNumber (getFullYear now)
           (length (filter (\<lambda>q. fp_tenant q = rq_tenant rq) (feePayments db)) + 1)"
proof -
  obtain a where a: "List.find (\<lambda>a. fa_id a = rq_feeAssignmentId rq \<and> fa_tenant a = rq_tenant rq
      \<and> fa_student a = rq_studentId rq) (feeAssignments db) = Some a"
    using assms by (cases "List.find (\<lambda>a. fa_id a = rq_feeAssignmentId rq
      \<and> fa_tenant a = rq_tenant rq \<and> fa_student a = rq_studentId rq) (feeAssignments db)")
      (simp_all add: recordFeePayment_def)
  have le: "\<not> toNumber (rq_amount rq) > jsSub (finalAmount a) (numberOrZero (paidAmount a))"
    using assms a by (auto simp: recordFeePayment_def Let_def)
  obtain q db1 where c: "createFeePayment rq now db = Some (q, db1)"
    using assms a le by (cases "createFeePayment rq now db")
      (auto simp: recordFeePayment_def Let_def)
  have "q = p" and "feePayments db' = feePayments db1"
    using assms a le c
    by (auto simp: recordFeePayment_def Let_def saveAssignment_def split: option.splits)
  then show "feePayments db' = feePayments db @ [p]"
    and "fp_tenant p = rq_tenant rq"
    and "fp_receiptNumber p = receiptNumber (getFullYear now)
           (length (filter (\<lambda>q. fp_tenant q = rq_tenant rq) (feePayments db)) + 1)"
    using createFeePayment_result[OF c] by simp_all
qed

lemma recordFeePayment_distinct:
  assumes "distinct (tenantReceipts t db)"
  shows "distinct (tenantReceipts t (snd (recordFeePayment rq now db)))"
  using recordFeePayment_payments[of rq now db] assms
  by (auto simp: tenantReceipts_def)

lemma recordFeePayments_distinct:
  assumes "\<And>t. distinct (tenantReceipts t db)"
  shows "distinct (tenantReceipts t (recordFeePayments rqs db))"
  using assms
proof (induction rqs arbitrary: db t)
  case Nil
  then show ?case by simp
next
  case (Cons r rqs)
  obtain rq now where r: "r = (rq, now)" by (cases r)
  have "\<And>t. distinct (tenantReceipts t (snd (recordFeePayment rq now db)))"
    using Cons.prems by (rule recordFeePayment_distinct)
  from Cons.IH[OF this] show ?case by (simp add: r)
qed

text \<open>
  Claim C8. A payment that \<open>recordFeePayment\<close> persists is stored with the receipt number
  made of \<^verbatim>\<open>RCP\<close>, the current year and the number of payments the tenant had before, plus
  one, padded with zeros to six digits. And where the receipt numbers of each tenant are
  pairwise distinct, they are so after any sequence of payment requests handled one after
  the other.
\<close>

theorem receipt_numbers_distinct:
  "(recordFeePayment rq now db = (Inr p, db')
    \<longrightarrow> feePayments db' = feePayments db @ [p]
        \<and> fp_tenant p = rq_tenant rq
        \<and> fp_receiptNumber p
            = ''RCP'' @ intToString (getFullYear now)
                @ padStart6 (natToString
                    (length (filter (\<lambda>q. fp_tenant q = rq_tenant rq) (feePayments db)) + 1)))
   \<and> ((\<forall>t. distinct (tenantReceipts t db))
    \<longrightarrow> (\<forall>t. distinct (tenantReceipts t (recordFeePayments rqs db))))"
proof (rule conjI)
  show "recordFeePayment rq now db = (Inr p, db')
    \<longrightarrow> feePayments db' = feePayments db @ [p]
        \<and> fp_tenant p = rq_tenant rq
        \<and> fp_receiptNumber p
            = ''RCP'' @ intToString (getFullYear now)
                @ padStart6 (natToString
                    (length (filter (\<lambda>q. fp_tenant q = rq_tenant rq) (feePayments db)) + 1))"
  proof (rule impI)
    assume r: "recordFeePayment rq now db = (Inr p, db')"
    show "feePayments db' = feePayments db @ [p]
        \<and> fp_tenant p = rq_tenant rq
        \<and> fp_receiptNumber p
            = ''RCP'' @ intToString (getFullYear now)
                @ padStart6 (natToString
                    (length (filter (\<lambda>q. fp_tenant q = rq_tenant rq) (feePayments db)) + 1))"
      using recordFeePayment_Inr[OF r] by (simp add: receiptNumber_def)
  qed
  show "(\<forall>t. distinct (tenantReceipts t db))
    \<longrightarrow> (\<forall>t. distinct (tenantReceipts t (recordFeePayments rqs db)))"
  proof (intro impI allI)
    fix t
    assume "\<forall>t. distinct (tenantReceipts t db)"
    then have "\<And>t. distinct (tenantReceipts t db)" by blast
    then show "distinct (tenantReceipts t (recordFeePayments rqs db))"
      by (rule recordFeePayments_distinct)
  qed
qed

theorem receipt_numbers_distinct_witness:
  "fst (recordFeePayment (payment 2000 (Some ''cash'')) exampleNow school) = Inr firstPayment
   \<and> fp_receiptNumber firstPayment = ''RCP2024000001''
   \<and> (\<forall>t. distinct (tenantReceipts t school))
   \<and> (\<forall>t. distinct (tenantReceipts t
         (recordFeePayments [(payment 2000 (Some ''cash''), exampleNow),
                             (payment 3000 (Some ''cash''), exampleNow + msPerDay)] school)))
   \<and> tenantReceipts 1
         (recordFeePayments [(payment 2000 (Some ''cash''), exampleNow),
                             (payment 3000 (Some ''cash''), exampleNow + msPerDay)] school)
       = [''RCP2024000001'', ''RCP2024000002'']"
proof -
  let ?rq = "payment 2000 (Some ''cash'')"
  let ?rqs = "[(payment 2000 (Some ''cash''), exampleNow),
               (payment 3000 (Some ''cash''), exampleNow + msPerDay)]"
  have f: "fst (recordFeePayment ?rq exampleNow school) = Inr firstPayment"
    by code_simp
  then have r: "recordFeePayment ?rq exampleNow school
      = (Inr firstPayment, snd (recordFeePayment ?rq exampleNow school))"
    by (simp add: prod_eq_iff)
  have h: "\<forall>t. distinct (tenantReceipts t school)"
    by (simp add: tenantReceipts_def school_def newSchool_def)
  have e: "tenantReceipts 1 (recordFeePayments ?rqs school)
      = [''RCP2024000001'', ''RCP2024000002'']"
    by code_simp
  have y: "intToString (getFullYear exampleNow) = ''2024''" by code_simp
  have n: "padStart6 (natToString (length (filter (\<lambda>q. fp_tenant q = rq_tenant ?rq)
      (feePayments school)) + 1)) = ''000001''"
    by code_simp
  note t = receipt_numbers_distinct[of ?rq exampleNow school firstPayment
      "snd (recordFeePayment ?rq exampleNow school)" ?rqs]
  from t[THEN conjunct1, THEN mp, OF r]
  have "fp_receiptNumber firstPayment = ''RCP'' @ intToString (getFullYear exampleNow)
          @ padStart6 (natToString (length (filter (\<lambda>q. fp_tenant q = rq_tenant ?rq)
              (feePayments school)) + 1))"
    by (elim conjE)
  then have c: "fp_receiptNumber firstPayment = ''RCP2024000001''"
    unfolding y n by simp
  have d: "\<forall>t. distinct (tenantReceipts t (recordFeePayments ?rqs school))"
    using t[THEN conjunct2, THEN mp, OF h] .
  show ?thesis
    using f c h d e by (intro conjI)
qed

section \<open>Assigning fees\<close>

lemma findAssignment_None_iff:
  "findAssignment t st f y db = None
     \<longleftrightarrow> (\<forall>a \<in> set (feeAssignments db). assignmentKey a \<noteq> (t, st, f, y))"
  by (auto simp: findAssignment_def assignmentKey_def find_None_iff)

lemma preSaveAssignment_key:
  "assignmentKey (preSaveAssignment isNew now a) = assignmentKey a"
  by (simp add: preSaveAssignment_def assignmentKey_def Let_def)

lemma createFeeAssignment_result:
  assumes "createFeeAssignment now t st s disc due db = (a, db')"
  shows "feeAssignments db' = feeAssignments db @ [a]"
    and "assignmentKey a = (t, st, fs_id s, fs_academicYear s)"
    and "feeStructures db' = feeStructures db"
  using assms
  by (auto simp: createFeeAssignment_def Let_def preSaveAssignment_key)
     (simp add: assignmentKey_def)

lemma activeAssignments_new:
  assumes "\<forall>a \<in> set (feeAssignments db). assignmentKey a \<noteq> assignmentKey b"
    and "feeAssignments db' = feeAssignments db @ [b]"
    and "length (activeAssignments k db) \<le> 1"
  shows "length (activeAssignments k db') \<le> 1"
proof (cases "k = assignmentKey b")
  case True
  then have "activeAssignments k db = []"
    using assms(1) by (auto simp: activeAssignments_def filter_empty_conv)
  then show ?thesis using assms(2) by (simp add: activeAssignments_def)
next
  case False
  then show ?thesis using assms(2,3) by (auto simp: activeAssignments_def)
qed

lemma assignFeeToStudent_active:
  assumes "\<And>k. length (activeAssignments k db) \<le> 1"
  shows "length (activeAssignments k (snd (assignFeeToStudent t st f disc now db))) \<le> 1"
proof (cases "List.find (\<lambda>s. fs_id s = f \<and> fs_tenant s = t) (feeStructures db)")
  case None
  then show ?thesis using assms by (simp add: assignFeeToStudent_def)
next
  case (Some s)
  then have f: "fs_id s = f" by (auto simp: find_Some_iff)
  show ?thesis
  proof (cases "findAssignment t st f (fs_academicYear s) db")
    case (Some e)
    then show ?thesis using \<open>List.find _ _ = Some s\<close> assms by (simp add: assignFeeToStudent_def)
  next
    case None
    obtain a db' where c: "createFeeAssignment now t st s (numberOrZero disc)
        (calculateDueDate (frequencyValue s) (Some (fs_dueDate s)) now) db = (a, db')"
      by (cases "createFeeAssignment now t st s (numberOrZero disc)
        (calculateDueDate (frequencyValue s) (Some (fs_dueDate s)) now) db")
    have r: "snd (assignFeeToStudent t st f disc now db) = db'"
      using \<open>List.find _ _ = Some s\<close> None c by (simp add: assignFeeToStudent_def Let_def)
    have "\<forall>x \<in> set (feeAssignments db). assignmentKey x \<noteq> assignmentKey a"
      using None f by (simp add: findAssignment_None_iff createFeeAssignment_result(2)[OF c])
    then show ?thesis
      unfolding r using createFeeAssignment_result(1)[OF c] assms
      by (rule activeAssignments_new)
  qed
qed

lemma autoAssignLoop_active:
  assumes "\<And>k. length (activeAssignments k db) \<le> 1"
  shows "length (activeAssignments k (snd (autoAssignLoop st t now ss (acc, db)))) \<le> 1"
  using assms
proof (induction ss arbitrary: acc db k)
  case Nil
  then show ?case by simp
next
  case (Cons s ss)
  show ?case
  proof (cases "findAssignment t st (fs_id s) (fs_academicYear s) db")
    case (Some e)
    then show ?thesis using Cons.IH[OF Cons.prems] by simp
  next
    case None
    obtain a db' where c: "createFeeAssignment now t st s 0
        (calculateDueDate (frequencyValue s)
           (Some (if fs_dueDate s = 0 then 10 else fs_dueDate s)) now) db = (a, db')"
      by (cases "createFeeAssignment now t st s 0
        (calculateDueDate (frequencyValue s)
           (Some (if fs_dueDate s = 0 then 10 else fs_dueDate s)) now) db")
    have n: "\<forall>x \<in> set (feeAssignments db). assignmentKey x \<noteq> assignmentKey a"
      using None by (simp add: findAssignment_None_iff createFeeAssignment_result(2)[OF c])
    have "\<And>k. length (activeAssignments k db') \<le> 1"
      using n createFeeAssignment_result(1)[OF c] Cons.prems by (rule activeAssignments_new)
    from Cons.IH[OF this] show ?thesis using None c by (simp add: Let_def)
  qed
qed

lemma runAssignCall_active:
  assumes "\<And>k. length (activeAssignments k db) \<le> 1"
  shows "length (activeAssignments k (runAssignCall c db)) \<le> 1"
proof (cases c)
  case (AssignFee t st f disc now)
  then show ?thesis using assignFeeToStudent_active[OF assms] by simp
next
  case (AutoAssign st cl t now)
  then show ?thesis
    using autoAssignLoop_active[OF assms] by (simp add: autoAssignClassFees_def)
qed

lemma runAssignCalls_active:
  assumes "\<And>k. length (activeAssignments k db) \<le> 1"
  shows "length (activeAssignments k (runAssignCalls cs db)) \<le> 1"
  using assms
proof (induction cs arbitrary: db k)
  case Nil
  then show ?case by simp
next
  case (Cons c cs)
  have "\<And>k. length (activeAssignments k (runAssignCall c db)) \<le> 1"
    using Cons.prems by (rule runAssignCall_active)
  from Cons.IH[OF this] show ?case by simp
qed

text \<open>
  Claim C4. When the fee structure is found and an assignment of the tuple (tenant,
  student, fee structure, academic year of the structure) is stored, \<open>assignFeeToStudent\<close>
  answers that the fee is already assigned and leaves the database as it is. And where no
  tuple has more than one assignment that is not cancelled, no tuple has more than one
  after any sequence of calls of \<open>assignFeeToStudent\<close> and \<open>autoAssignClassFees\<close> run one
  after the other.
\<close>

theorem assignment_at_most_once:
  "(List.find (\<lambda>s. fs_id s = f \<and> fs_tenant s = t) (feeStructures db) = Some s
      \<and> findAssignment t st f (fs_academicYear s) db = Some e
    \<longrightarrow> assignFeeToStudent t st f disc now db = (Inl FeeAlreadyAssigned, db))
   \<and> ((\<forall>k. length (activeAssignments k db) \<le> 1)
    \<longrightarrow> (\<forall>k. length (activeAssignments k (runAssignCalls cs db)) \<le> 1))"
proof (intro conjI impI allI)
  assume "List.find (\<lambda>s. fs_id s = f \<and> fs_tenant s = t) (feeStructures db) = Some s
      \<and> findAssignment t st f (fs_academicYear s) db = Some e"
  then show "assignFeeToStudent t st f disc now db = (Inl FeeAlreadyAssigned, db)"
    by (simp add: assignFeeToStudent_def)
next
  fix k
  assume "\<forall>k. length (activeAssignments k db) \<le> 1"
  then have "\<And>k. length (activeAssignments k db) \<le> 1" by blast
  then show "length (activeAssignments k (runAssignCalls cs db)) \<le> 1"
    by (rule runAssignCalls_active)
qed

theorem assignment_at_most_once_witness:
  "List.find (\<lambda>s. fs_id s = 3 \<and> fs_tenant s = 1) (feeStructures school) = Some tuitionFee
   \<and> findAssignment 1 2 3 (fs_academicYear tuitionFee) school = Some tuitionAssignment
   \<and> assignFeeToStudent 1 2 3 None exampleNow school = (Inl FeeAlreadyAssigned, school)
   \<and> (\<forall>k. length (activeAssignments k newSchool) \<le> 1)
   \<and> (\<forall>k. length (activeAssignments k
          (runAssignCalls [AssignFee 1 2 3 None exampleNow, AutoAssign 2 4 1 exampleNow,
                           AssignFee 1 2 7 (Some 100) exampleNow] newSchool)) \<le> 1)
   \<and> map fa_feeStructure (feeAssignments
          (runAssignCalls [AssignFee 1 2 3 None exampleNow, AutoAssign 2 4 1 exampleNow,
                           AssignFee 1 2 7 (Some 100) exampleNow] newSchool)) = [3, 7]"
proof -
  have h1: "List.find (\<lambda>s. fs_id s = 3 \<and> fs_tenant s = 1) (feeStructures school) = Some tuitionFee
      \<and> findAssignment 1 2 3 (fs_academicYear tuitionFee) school = Some tuitionAssignment"
    by (simp add: school_def newSchool_def tuitionFee_def findAssignment_def
        tuitionAssignment_def)
  have h2: "\<forall>k. length (activeAssignments k newSchool) \<le> 1"
    by (simp add: activeAssignments_def newSchool_def)
  have e: "map fa_feeStructure (feeAssignments
          (runAssignCalls [AssignFee 1 2 3 None exampleNow, AutoAssign 2 4 1 exampleNow,
                           AssignFee 1 2 7 (Some 100) exampleNow] newSchool)) = [3, 7]"
    by code_simp
  from assignment_at_most_once[of 3 1 school tuitionFee 2 tuitionAssignment None exampleNow
      "[]"] h1
  have c1: "assignFeeToStudent 1 2 3 None exampleNow school = (Inl FeeAlreadyAssigned, school)"
    by blast
  from assignment_at_most_once[of 3 1 newSchool tuitionFee 2 tuitionAssignment None exampleNow
      "[AssignFee 1 2 3 None exampleNow, AutoAssign 2 4 1 exampleNow,
        AssignFee 1 2 7 (Some 100) exampleNow]"] h2
  have c2: "\<forall>k. length (activeAssignments k
          (runAssignCalls [AssignFee 1 2 3 None exampleNow, AutoAssign 2 4 1 exampleNow,
                           AssignFee 1 2 7 (Some 100) exampleNow] newSchool)) \<le> 1"
    by blast
  from h1 h2 e c1 c2 show ?thesis by blast
qed

lemma findAssignment_Some_iff:
  "findAssignment t st f y db \<noteq> None
     \<longleftrightarrow> (\<exists>a \<in> set (feeAssignments db). assignmentKey a = (t, st, f, y))"
  using findAssignment_None_iff[of t st f y db] by auto

lemma autoAssignLoop_skip:
  assumes "\<forall>s \<in> set ss. findAssignment t st (fs_id s) (fs_academicYear s) db \<noteq> None"
  shows "autoAssignLoop st t now ss (acc, db) = (acc, db)"
  using assms by (induction ss) auto

lemma autoAssignLoop_covers:
  "feeStructures (snd (autoAssignLoop st t now ss (acc, db))) = feeStructures db
   \<and> set (feeAssignments db) \<subseteq> set (feeAssignments (snd (autoAssignLoop st t now ss (acc, db))))
   \<and> (\<forall>s \<in> set ss. findAssignment t st (fs_id s) (fs_academicYear s)
                       (snd (autoAssignLoop st t now ss (acc, db))) \<noteq> None)"
proof (induction ss arbitrary: acc db)
  case Nil
  then show ?case by simp
next
  case (Cons s ss)
  show ?case
  proof (cases "findAssignment t st (fs_id s) (fs_academicYear s) db")
    case (Some e)
    have "findAssignment t st (fs_id s) (fs_academicYear s) db \<noteq> None" using Some by simp
    then have "findAssignment t st (fs_id s) (fs_academicYear s)
        (snd (autoAssignLoop st t now ss (acc, db))) \<noteq> None"
      unfolding findAssignment_Some_iff using Cons.IH[of acc db] by blast
    then show ?thesis using Some Cons.IH[of acc db] by simp
  next
    case None
    obtain a db' where c: "createFeeAssignment now t st s 0
        (calculateDueDate (frequencyValue s)
           (Some (if fs_dueDate s = 0 then 10 else fs_dueDate s)) now) db = (a, db')"
      by (cases "createFeeAssignment now t st s 0
        (calculateDueDate (frequencyValue s)
           (Some (if fs_dueDate s = 0 then 10 else fs_dueDate s)) now) db")
    note r = createFeeAssignment_result[OF c]
    have step: "autoAssignLoop st t now (s # ss) (acc, db)
        = autoAssignLoop st t now ss (acc @ [a], db')"
      using None c by (simp add: Let_def)
    note ih = Cons.IH[of "acc @ [a]" db']
    have "findAssignment t st (fs_id s) (fs_academicYear s) db' \<noteq> None"
      unfolding findAssignment_Some_iff using r(1,2) by auto
    then have "findAssignment t st (fs_id s) (fs_academicYear s)
        (snd (autoAssignLoop st t now ss (acc @ [a], db'))) \<noteq> None"
      unfolding findAssignment_Some_iff using ih by blast
    moreover have "set (feeAssignments db)
        \<subseteq> set (feeAssignments (snd (autoAssignLoop st t now ss (acc @ [a], db'))))"
      using ih r(1) by auto
    ultimately show ?thesis unfolding step using ih r(3) by simp
  qed
qed

text \<open>
  Claim C5. Running \<open>autoAssignClassFees\<close> a second time for the same student, class and
  tenant, at any later clock reading, creates no assignment and leaves the database as
  the first run left it.
\<close>

theorem autoAssignClassFees_idempotent:
  "autoAssignClassFees st c t now2 (snd (autoAssignClassFees st c t now1 db))
     = ([], snd (autoAssignClassFees st c t now1 db))"
proof -
  define ss where "ss = filter (\<lambda>s. fs_tenant s = t \<and> c \<in> set (fs_classes s) \<and> fs_isActive s)
      (feeStructures db)"
  define db1 where "db1 = snd (autoAssignLoop st t now1 ss ([], db))"
  have 1: "snd (autoAssignClassFees st c t now1 db) = db1"
    by (simp add: autoAssignClassFees_def ss_def db1_def)
  have fs: "feeStructures db1 = feeStructures db"
    and cov: "\<forall>s \<in> set ss. findAssignment t st (fs_id s) (fs_academicYear s) db1 \<noteq> None"
    using autoAssignLoop_covers[of st t now1 ss "[]" db] by (simp_all add: db1_def)
  have "autoAssignClassFees st c t now2 db1 = autoAssignLoop st t now2 ss ([], db1)"
    by (simp add: autoAssignClassFees_def ss_def fs)
  also have "\<dots> = ([], db1)" using cov by (rule autoAssignLoop_skip)
  finally show ?thesis unfolding 1 .
qed

theorem autoAssignClassFees_idempotent_witness:
  "map fa_feeStructure (feeAssignments (snd (autoAssignClassFees 2 4 1 exampleNow newSchool)))
     = [3, 7]
   \<and> autoAssignClassFees 2 4 1 (exampleNow + msPerDay)
       (snd (autoAssignClassFees 2 4 1 exampleNow newSchool))
     = ([], snd (autoAssignClassFees 2 4 1 exampleNow newSchool))"
proof -
  have "map fa_feeStructure (feeAssignments (snd (autoAssignClassFees 2 4 1 exampleNow newSchool)))
     = [3, 7]"
    by code_simp
  with autoAssignClassFees_idempotent[of 2 4 1 "exampleNow + msPerDay" exampleNow newSchool]
  show ?thesis by simp
qed

section \<open>School fee summary\<close>

text \<open>
  Claim C9. The school has one assignment, of 5000, cancelled and unpaid. The claim
  leaves it out of the summary; \<open>getSchoolFeeSummary\<close> selects the assignments by tenant
  only, recomputes the status of the cancelled one to overdue in memory and counts it: one
  student, one assignment, 5000 expected and 5000 overdue, in the totals and in the
  breakdowns by class and by category.
\<close>

theorem summary_counts_cancelled:
  "(let db = school\<lparr>feeAssignments := [tuitionAssignment\<lparr>status := CANCELLED\<rparr>]\<rparr>;
        s = getSchoolFeeSummary 1 None exampleNow db
    in map status (feeAssignments db) = [CANCELLED]
       \<and> map status (summaryAssignments 1 None exampleNow db) = [OVERDUE]
       \<and> totalStudents s = 1 \<and> totalAssignments s = 1
       \<and> totalExpected s = 5000 \<and> totalCollected s = 0
       \<and> totalPending s = 0 \<and> totalOverdue s = 5000
       \<and> classWiseSummary s ''Grade 1 - A''
           = Some \<lparr>cb_expected = 5000, cb_collected = 0, cb_pending = 0, cb_overdue = 5000,
                   cb_students = [2]\<rparr>
       \<and> categoryWiseSummary s (CategoryId 8)
           = Some \<lparr>gb_expected = 5000, gb_collected = 0, gb_pending = 0, gb_overdue = 5000\<rparr>)"
  by code_simp

section \<open>Deleting a fee frequency\<close>

text \<open>
  Claim C10. The transport fee of the tenant references the custom frequency
  \<^verbatim>\<open>bi-monthly\<close> by its id. \<open>canDelete\<close> counts the fee structures whose frequency equals the
  code of the frequency, so the reference is not found: when the string is not
  convertible to an \<^verbatim>\<open>ObjectId\<close> the deletion ends in the handler's \<^verbatim>\<open>catch\<close> block with
  "Error deleting frequency" and no in-use reason, and when it is convertible (to any id
  no fee structure holds as its frequency) the frequency is deleted although it is
  referenced. A system frequency is refused.
\<close>

theorem delete_referenced_frequency:
  "map fs_id (referencingStructures newSchool biMonthlyFrequency) = [7]
   \<and> fst (deleteFeeFrequency (\<lambda>code. None) 1 6 newSchool) = Inl ErrorDeletingFrequency
   \<and> fst (deleteFeeFrequency (\<lambda>code. Some 99) 1 6 newSchool) = Inr ()
   \<and> map ff_id (feeFrequencies (snd (deleteFeeFrequency (\<lambda>code. Some 99) 1 6 newSchool))) = [5]
   \<and> fst (deleteFeeFrequency (\<lambda>code. None) 1 5 newSchool) = Inl SystemFrequenciesCannotBeDeleted"
  by code_simp

end
